theory Spec2Isabelle
  imports Complex_Main
begin

section \<open>The L4CasADi build pipeline (l4casadi/l4casadi.py)\<close>

text \<open>
  The class \<^verbatim>\<open>L4CasADi\<close> wraps a PyTorch model, exports TorchScript traces of the model
  and of its derivatives, renders a C++ source from a template, compiles it with gcc and
  loads the library as a CasADi external function.

  Everything the class does goes through collaborators that are not part of the file:
  the model, torch, functorch, CasADi, pathlib, the template renderer, the operating system.
  The embedding takes their behaviour during one call as a record \<open>env\<close> of functions
  (what each call returns, or whether it raises) and records every call to one of them in
  an event log, in the order the code makes them. An exception is a value \<open>Inl e\<close>;
  the attributes \<^verbatim>\<open>_built\<close> and \<^verbatim>\<open>_cs_fun\<close> that the methods assign are
  returned as the updated object.
\<close>

subsection \<open>Values\<close>

text \<open>A torch tensor: its shape, its elements (row major) and the device it lives on.\<close>

datatype tensor = Tensor (shape: "nat list") (elems: "real list") (dev: string)

text \<open>\<^verbatim>\<open>torch.zeros(*dims)\<close>: a zero-filled tensor on the default device.\<close>

definition zeros :: "nat list \<Rightarrow> tensor" where
  "zeros dims = Tensor dims (replicate (prod_list dims) 0) ''cpu''"

text \<open>
  A CasADi expression (\<^verbatim>\<open>cs.MX\<close>, \<^verbatim>\<open>cs.SX\<close>, \<^verbatim>\<open>cs.DM\<close>). Its
  \<^verbatim>\<open>shape\<close> is always a pair; \<^verbatim>\<open>cs.MX.sym('inp', r, c)\<close> is \<open>CsExpr ''inp'' r c\<close>.
\<close>

datatype cs_expr = CsExpr (cs_label: string) (cs_rows: nat) (cs_cols: nat)

definition cs_shape :: "cs_expr \<Rightarrow> nat \<times> nat" where
  "cs_shape e = (cs_rows e, cs_cols e)"

text \<open>A \<^verbatim>\<open>cs.Function\<close> obtained from \<^verbatim>\<open>cs.external(name, path)\<close>.\<close>

datatype cs_function = CsExternal string string

text \<open>A graph module returned by \<^verbatim>\<open>make_fx\<close>, and what can be scripted or traced:
  the wrapped model itself or such a graph.\<close>

datatype fx_graph = FxGraph nat

datatype callable = TheModel | Graph fx_graph

text \<open>The values of the template variables: strings and integers.\<close>

datatype pyval = PyStr string | PyInt nat

subsection \<open>Exceptions and events\<close>

text \<open>Where an exception of a collaborator comes from.\<close>

datatype origin =
    InMakeDirs
  | InToDevice
  | InModel
  | InJitTraceSave
  | InTsCompileSave
  | InMakeFxJacrev
  | InMakeFxHessian
  | InRender
  | InCsGenerate
  | InMove
  | InCsExternal
  | InCsCall

text \<open>The exceptions the file raises itself (with their message), Python's own
  \<^verbatim>\<open>ValueError\<close>, \<^verbatim>\<open>IndexError\<close> and \<^verbatim>\<open>TypeError\<close>, and those of a collaborator.\<close>

datatype error =
    ValueError string
  | RuntimeError string
  | Exception string
  | IndexError string
  | TypeError string
  | Raised origin

text \<open>One event for each call that leaves the class.\<close>

datatype event =
    PathExists string
  | MakeDirs string
  | ModelCall tensor
  | NaiveModelCall cs_expr
  | JitTraceSave callable tensor string
  | TsCompileSave callable string
  | MakeFxJacrev tensor
  | MakeFxHessian tensor
  | Print string
  | Render "(string \<times> pyval) list" string
  | CsGenerate string cs_expr cs_expr string
  | Move string string
  | System string
  | CsExternalLoad string string
  | CsCall cs_function cs_expr

text \<open>The toolchain invocation, and the events that touch the file system.\<close>

definition is_System :: "event \<Rightarrow> bool" where
  "is_System ev = (case ev of System c \<Rightarrow> True | _ \<Rightarrow> False)"

definition is_file_io :: "event \<Rightarrow> bool" where
  "is_file_io ev =
     (case ev of
        PathExists p \<Rightarrow> True
      | MakeDirs p \<Rightarrow> True
      | JitTraceSave m t p \<Rightarrow> True
      | TsCompileSave m p \<Rightarrow> True
      | Render vs p \<Rightarrow> True
      | CsGenerate n i out p \<Rightarrow> True
      | Move a b \<Rightarrow> True
      | System c \<Rightarrow> True
      | CsExternalLoad n p \<Rightarrow> True
      | _ \<Rightarrow> False)"

subsection \<open>The collaborators\<close>

text \<open>
  For a call that returns nothing of interest the field says whether it completes
  (\<open>True\<close>) or raises (\<open>False\<close>); for a call with a result, \<open>None\<close> is an exception.
  \<^verbatim>\<open>ts_compile(m).save(p)\<close> and \<^verbatim>\<open>torch.jit.trace(m, inp).save(p)\<close> are one call
  each: the code never separates the two halves.
  \<open>joinpath\<close> is pathlib's \<^verbatim>\<open>/\<close> and \<open>abs_posix\<close> is
  \<^verbatim>\<open>Path.absolute().as_posix()\<close>, both on paths in posix form; \<open>pkg_dir\<close> is
  \<^verbatim>\<open>files('l4casadi')\<close>.
\<close>

record env =
  path_exists :: "string \<Rightarrow> bool"
  makedirs :: "string \<Rightarrow> bool"
  joinpath :: "string \<Rightarrow> string \<Rightarrow> string"
  abs_posix :: "string \<Rightarrow> string"
  pkg_dir :: string
  is_darwin :: bool
  glibcxx_use_cxx11_abi :: bool
  device_ok :: "string \<Rightarrow> bool"
  model_call :: "tensor \<Rightarrow> tensor option"
  naive_model_call :: "cs_expr \<Rightarrow> cs_expr option"
  jit_trace_save :: "callable \<Rightarrow> tensor \<Rightarrow> string \<Rightarrow> bool"
  ts_compile_save :: "callable \<Rightarrow> string \<Rightarrow> bool"
  make_fx_jacrev :: "tensor \<Rightarrow> fx_graph option"
  make_fx_hessian :: "tensor \<Rightarrow> fx_graph option"
  render_casadi_c_template :: "(string \<times> pyval) list \<Rightarrow> string \<Rightarrow> bool"
  cs_generate :: "string \<Rightarrow> cs_expr \<Rightarrow> cs_expr \<Rightarrow> string \<Rightarrow> bool"
  shutil_move :: "string \<Rightarrow> string \<Rightarrow> bool"
  os_system :: "string \<Rightarrow> int"
  cs_external :: "string \<Rightarrow> string \<Rightarrow> bool"
  cs_call :: "cs_function \<Rightarrow> cs_expr \<Rightarrow> cs_expr option"

subsection \<open>The object\<close>

text \<open>The attributes \<^verbatim>\<open>__init__\<close> sets (lines 49-69). \<open>build_dir\<close> is the
  \<^verbatim>\<open>pathlib.Path\<close> in posix form, \<open>device\<close> the device string.\<close>

record l4casadi =
  naive :: bool
  name :: string
  has_batch :: bool
  device :: string
  build_dir :: string
  model_search_path :: "string option"
  cs_fun :: "cs_function option"
  built :: bool
  with_jacobian :: bool
  with_hessian :: bool

text \<open>\<^verbatim>\<open>__init__\<close> with a device given as a string: nothing is built or loaded yet.\<close>

definition init ::
  "bool \<Rightarrow> bool \<Rightarrow> string \<Rightarrow> string \<Rightarrow> string \<Rightarrow> string option \<Rightarrow> bool \<Rightarrow> bool \<Rightarrow> l4casadi" where
  "init model_is_naive model_expects_batch_dim device_str name_str build_dir_str search_path
        jacobian hessian =
     \<lparr> naive = model_is_naive, name = name_str, has_batch = model_expects_batch_dim,
       device = device_str, build_dir = build_dir_str, model_search_path = search_path,
       cs_fun = None, built = False, with_jacobian = jacobian, with_hessian = hessian \<rparr>"

subsection \<open>Sequencing, exceptions and the event log\<close>

type_synonym 'a io = "(error + 'a) \<times> event list"

definition io_return :: "'a \<Rightarrow> 'a io" where
  "io_return x = (Inr x, [])"

definition io_raise :: "error \<Rightarrow> 'a io" where
  "io_raise e = (Inl e, [])"

text \<open>Run \<open>m\<close>, then \<open>f\<close> on its result; an exception of \<open>m\<close> skips \<open>f\<close>.\<close>

definition io_bind :: "'a io \<Rightarrow> ('a \<Rightarrow> 'b io) \<Rightarrow> 'b io" where
  "io_bind m f =
     (case m of
        (Inl e, l) \<Rightarrow> (Inl e, l)
      | (Inr x, l) \<Rightarrow> (case f x of (r, l') \<Rightarrow> (r, l @ l')))"

text \<open>\<^verbatim>\<open>try: m except: h\<close> with a bare \<^verbatim>\<open>except\<close>: every exception of \<open>m\<close> runs \<open>h\<close>.\<close>

definition io_catch :: "'a io \<Rightarrow> 'a io \<Rightarrow> 'a io" where
  "io_catch m h =
     (case m of
        (Inl e, l) \<Rightarrow> (case h of (r, l') \<Rightarrow> (r, l @ l'))
      | (Inr x, l) \<Rightarrow> (Inr x, l))"

text \<open>A call to a collaborator: logged, and raising when the collaborator does.\<close>

definition call_unit :: "event \<Rightarrow> origin \<Rightarrow> bool \<Rightarrow> unit io" where
  "call_unit ev orig ok = (if ok then Inr () else Inl (Raised orig), [ev])"

definition call_result :: "event \<Rightarrow> origin \<Rightarrow> 'a option \<Rightarrow> 'a io" where
  "call_result ev orig res =
     (case res of None \<Rightarrow> (Inl (Raised orig), [ev]) | Some x \<Rightarrow> (Inr x, [ev]))"

text \<open>\<^verbatim>\<open>print(msg)\<close>.\<close>

definition print_msg :: "string \<Rightarrow> unit io" where
  "print_msg msg = (Inr (), [Print msg])"

text \<open>\<^verbatim>\<open>t.to(device)\<close>: the tensor on the device, or an exception when the device
  cannot be used.\<close>

definition to_device :: "env \<Rightarrow> string \<Rightarrow> tensor \<Rightarrow> tensor io" where
  "to_device env d t =
     (if device_ok env d then io_return (Tensor (shape t) (elems t) d)
      else io_raise (Raised InToDevice))"

subsection \<open>The methods\<close>

text \<open>\<^verbatim>\<open>dynamic_lib_file_ending\<close> (lines 21-22).\<close>

definition dynamic_lib_file_ending :: "env \<Rightarrow> string" where
  "dynamic_lib_file_ending env = (if is_darwin env then ''.dylib'' else ''.so'')"

text \<open>\<^verbatim>\<open>maybe_make_generation_dir\<close> (lines 95-97).\<close>

definition maybe_make_generation_dir :: "env \<Rightarrow> l4casadi \<Rightarrow> unit io" where
  "maybe_make_generation_dir env self =
     io_bind (Inr (path_exists env (build_dir self)), [PathExists (build_dir self)])
       (\<lambda>ex. if \<not> ex
              then call_unit (MakeDirs (build_dir self)) InMakeDirs (makedirs env (build_dir self))
              else io_return ())"

text \<open>\<^verbatim>\<open>_jit_compile_and_save\<close> (lines 246-258): scripting first, tracing when that
  raises, \<^verbatim>\<open>False\<close> when tracing raises too.\<close>

definition jit_compile_and_save :: "env \<Rightarrow> callable \<Rightarrow> string \<Rightarrow> tensor \<Rightarrow> bool io" where
  "jit_compile_and_save env model file_path dummy_inp =
     io_catch
       (io_bind
          (call_unit (TsCompileSave model file_path) InTsCompileSave
             (ts_compile_save env model file_path))
          (\<lambda>_. io_return True))
       (io_catch
          (io_bind
             (call_unit (JitTraceSave model dummy_inp file_path) InJitTraceSave
                (jit_trace_save env model dummy_inp file_path))
             (\<lambda>_. io_return True))
          (io_return False))"

text \<open>\<^verbatim>\<open>_trace_jac_model\<close> and \<^verbatim>\<open>_trace_hess_model\<close> (lines 202-206).\<close>

definition trace_jac_model :: "env \<Rightarrow> tensor \<Rightarrow> fx_graph io" where
  "trace_jac_model env inp = call_result (MakeFxJacrev inp) InMakeFxJacrev (make_fx_jacrev env inp)"

definition trace_hess_model :: "env \<Rightarrow> tensor \<Rightarrow> fx_graph io" where
  "trace_hess_model env inp =
     call_result (MakeFxHessian inp) InMakeFxHessian (make_fx_hessian env inp)"

text \<open>\<^verbatim>\<open>export_torch_traces\<close> (lines 208-244).\<close>

definition export_torch_traces :: "env \<Rightarrow> l4casadi \<Rightarrow> nat \<Rightarrow> nat \<Rightarrow> (bool \<times> bool) io" where
  "export_torch_traces env self rows cols =
     io_bind
       (to_device env (device self)
          (if has_batch self then zeros [1, rows] else zeros [rows, cols]))
       (\<lambda>d_inp.
     let out_folder = build_dir self in
     io_bind
       (call_unit
          (JitTraceSave TheModel d_inp (joinpath env out_folder (name self @ ''_forward.pt'')))
          InJitTraceSave
          (jit_trace_save env TheModel d_inp (joinpath env out_folder (name self @ ''_forward.pt''))))
       (\<lambda>_.
     io_bind
       (if with_jacobian self
        then io_bind (trace_jac_model env d_inp)
               (\<lambda>jac_model.
                  jit_compile_and_save env (Graph jac_model)
                    (joinpath env out_folder (name self @ ''_jacrev.pt'')) d_inp)
        else io_return False)
       (\<lambda>exported_jacrev.
     io_bind
       (if with_hessian self
        then io_bind
               (io_catch
                  (io_bind (trace_hess_model env d_inp) (\<lambda>g. io_return (Some g)))
                  (io_return None))
               (\<lambda>hess_model.
                  case hess_model of
                    Some g \<Rightarrow>
                      jit_compile_and_save env (Graph g)
                        (joinpath env out_folder (name self @ ''_hess.pt'')) d_inp
                  | None \<Rightarrow> io_return False)
        else io_return False)
       (\<lambda>exported_hess. io_return (exported_jacrev, exported_hess)))))"

text \<open>
  The shape arithmetic of \<^verbatim>\<open>_generate_cpp_function_template\<close> (lines 146-155) on
  the shape of the model's output. \<^verbatim>\<open>shape[-1]\<close> of a tensor without dimensions is
  an \<^verbatim>\<open>IndexError\<close>, and unpacking \<^verbatim>\<open>out_shape[-2:]\<close> of one is a \<^verbatim>\<open>ValueError\<close>.
\<close>

definition out_dims :: "bool \<Rightarrow> nat list \<Rightarrow> error + nat \<times> nat" where
  "out_dims batch out_shape =
     (if batch then
        (case rev out_shape of
           [] \<Rightarrow> Inl (IndexError ''tuple index out of range'')
         | d # _ \<Rightarrow> Inr (d, 1))
      else if length out_shape = 1 then Inr (out_shape ! 0, 1)
      else
        (case rev out_shape of
           c # r # _ \<Rightarrow> Inr (r, c)
         | _ \<Rightarrow> Inl (ValueError ''not enough values to unpack (expected 2, got 0)'')))"

text \<open>\<^verbatim>\<open>'true' if b else 'false'\<close>.\<close>

definition bool_str :: "bool \<Rightarrow> string" where
  "bool_str b = (if b then ''true'' else ''false'')"

text \<open>The dictionary \<^verbatim>\<open>gen_params\<close> (lines 161-172), in insertion order.\<close>

definition gen_params ::
  "l4casadi \<Rightarrow> string \<Rightarrow> nat \<Rightarrow> nat \<Rightarrow> nat \<Rightarrow> nat \<Rightarrow> bool \<Rightarrow> bool \<Rightarrow> (string \<times> pyval) list" where
  "gen_params self model_path rows cols rows_out cols_out has_jac has_hess =
     [(''model_path'', PyStr model_path),
      (''device'', PyStr (device self)),
      (''name'', PyStr (name self)),
      (''rows_in'', PyInt rows),
      (''cols_in'', PyInt cols),
      (''rows_out'', PyInt rows_out),
      (''cols_out'', PyInt cols_out),
      (''has_jac'', PyStr (bool_str has_jac)),
      (''has_hess'', PyStr (bool_str has_hess)),
      (''model_expects_batch_dim'', PyStr (bool_str (has_batch self)))]"

text \<open>\<^verbatim>\<open>_generate_cpp_function_template\<close> (lines 145-177).\<close>

definition generate_cpp_function_template ::
  "env \<Rightarrow> l4casadi \<Rightarrow> nat \<Rightarrow> nat \<Rightarrow> bool \<Rightarrow> bool \<Rightarrow> unit io" where
  "generate_cpp_function_template env self rows cols has_jac has_hess =
     io_bind
       (to_device env (device self)
          (if has_batch self then zeros [1, rows] else zeros [rows, cols]))
       (\<lambda>probe.
     io_bind (call_result (ModelCall probe) InModel (model_call env probe))
       (\<lambda>out.
     io_bind (out_dims (has_batch self) (shape out), [])
       (\<lambda>(rows_out, cols_out).
     let model_path =
           (case model_search_path self of
              None \<Rightarrow> abs_posix env (build_dir self)
            | Some p \<Rightarrow> p);
         params = gen_params self model_path rows cols rows_out cols_out has_jac has_hess;
         out_file = joinpath env (build_dir self) (name self @ ''.cpp'')
     in call_unit (Render params out_file) InRender
          (render_casadi_c_template env params out_file))))"

text \<open>The two diagnostics of \<^verbatim>\<open>generate\<close>.\<close>

definition jac_msg :: string where
  "jac_msg = ''Jacobian trace could not be generated.''
             @ '' First-order sensitivities will not be available in CasADi.''"

definition hess_msg :: string where
  "hess_msg = ''Hessian trace could not be generated.''
              @ '' Second-order sensitivities will not be available in CasADi.''"

text \<open>\<^verbatim>\<open>generate\<close> (lines 126-135).\<close>

definition generate :: "env \<Rightarrow> l4casadi \<Rightarrow> cs_expr \<Rightarrow> unit io" where
  "generate env self inp =
     (case cs_shape inp of (rows, cols) \<Rightarrow>
     io_bind (export_torch_traces env self rows cols)
       (\<lambda>(has_jac, has_hess).
     io_bind (if \<not> has_jac \<and> with_jacobian self then print_msg jac_msg else io_return ())
       (\<lambda>_.
     io_bind (if \<not> has_hess \<and> with_hessian self then print_msg hess_msg else io_return ())
       (\<lambda>_.
     generate_cpp_function_template env self rows cols has_jac has_hess))))"

text \<open>The command line of \<^verbatim>\<open>compile\<close> (lines 180-196).\<close>

definition os_cmd :: "env \<Rightarrow> l4casadi \<Rightarrow> string" where
  "os_cmd env self =
     (let file_dir = pkg_dir env;
          include_dir = joinpath env (pkg_dir env) ''include'';
          lib_dir = joinpath env file_dir ''lib'';
          soname = (if is_darwin env then ''install_name'' else ''soname'');
          cxx11_abi = (if glibcxx_use_cxx11_abi env then ''1'' else ''0'');
          link_libl4casadi = (if \<not> naive self then '' -ll4casadi'' else [])
      in ''gcc''
         @ '' -fPIC -shared''
         @ '' '' @ joinpath env (build_dir self) (name self) @ ''.cpp''
         @ '' -o '' @ joinpath env (build_dir self) (''lib'' @ name self)
         @ dynamic_lib_file_ending env
         @ '' -I'' @ include_dir @ '' -L'' @ lib_dir
         @ '' -Wl,-'' @ soname @ '',lib'' @ name self @ dynamic_lib_file_ending env
         @ link_libl4casadi
         @ '' -lstdc++ -std=c++17''
         @ '' -D_GLIBCXX_USE_CXX11_ABI='' @ cxx11_abi)"

text \<open>The message of the exception of \<^verbatim>\<open>compile\<close> (line 200).\<close>

definition compile_failed_msg :: "string \<Rightarrow> string" where
  "compile_failed_msg cmd =
     ''Compilation failed!'' @ [CHR 0x0A, CHR 0x0A]
     @ ''Attempted to execute OS command:'' @ [CHR 0x0A] @ cmd @ [CHR 0x0A, CHR 0x0A]"

text \<open>\<^verbatim>\<open>compile\<close> (lines 179-200): one \<^verbatim>\<open>os.system\<close> call, an exception when
  its status is not 0.\<close>

definition compile :: "env \<Rightarrow> l4casadi \<Rightarrow> unit io" where
  "compile env self =
     (let cmd = os_cmd env self;
          status = os_system env cmd
      in (if status \<noteq> 0 then Inl (Exception (compile_failed_msg cmd)) else Inr (),
          [System cmd]))"

text \<open>The naive branch of \<^verbatim>\<open>build\<close> (lines 114-118).\<close>

definition build_naive :: "env \<Rightarrow> l4casadi \<Rightarrow> cs_expr \<Rightarrow> unit io" where
  "build_naive env self inp =
     (case cs_shape inp of (rows, cols) \<Rightarrow>
     let inp_sym = CsExpr ''inp'' rows cols in
     io_bind (call_result (NaiveModelCall inp_sym) InModel (naive_model_call env inp_sym))
       (\<lambda>out_sym.
     io_bind
       (call_unit (CsGenerate (name self) inp_sym out_sym (name self @ ''.cpp'')) InCsGenerate
          (cs_generate env (name self) inp_sym out_sym (name self @ ''.cpp'')))
       (\<lambda>_.
     call_unit
       (Move (name self @ ''.cpp'') (joinpath env (build_dir self) (name self @ ''.cpp'')))
       InMove
       (shutil_move env (name self @ ''.cpp'')
          (joinpath env (build_dir self) (name self @ ''.cpp''))))))"

text \<open>\<^verbatim>\<open>build\<close> (lines 99-124): \<^verbatim>\<open>_built\<close> is set when every step has returned.\<close>

definition build :: "env \<Rightarrow> l4casadi \<Rightarrow> cs_expr \<Rightarrow> l4casadi \<times> unit io" where
  "build env self inp =
     (let r =
        io_bind (maybe_make_generation_dir env self)
          (\<lambda>_.
        io_bind (if naive self then build_naive env self inp else generate env self inp)
          (\<lambda>_. compile env self))
      in (case fst r of
            Inl e \<Rightarrow> (self, r)
          | Inr _ \<Rightarrow> (self\<lparr>built := True\<rparr>, r)))"

text \<open>The message of \<^verbatim>\<open>_load_built_library_as_external_cs_fun\<close> (line 139).\<close>

definition not_built_msg :: string where
  "not_built_msg = ''L4CasADi model has not been built yet. Call `build` first.''"

text \<open>\<^verbatim>\<open>_load_built_library_as_external_cs_fun\<close> (lines 137-143).\<close>

definition load_built_library_as_external_cs_fun :: "env \<Rightarrow> l4casadi \<Rightarrow> l4casadi \<times> unit io" where
  "load_built_library_as_external_cs_fun env self =
     (if \<not> built self then (self, io_raise (RuntimeError not_built_msg))
      else
        (let lib = joinpath env (build_dir self) (''lib'' @ name self)
                   @ dynamic_lib_file_ending env
         in if cs_external env (name self) lib
            then (self\<lparr>cs_fun := Some (CsExternal (name self) lib)\<rparr>,
                  Inr (), [CsExternalLoad (name self) lib])
            else (self, Inl (Raised InCsExternal), [CsExternalLoad (name self) lib])))"

text \<open>The message of the check of \<^verbatim>\<open>forward\<close> (line 81).\<close>

definition batch_msg :: string where
  "batch_msg = ''For batched PyTorch models only vector inputs are allowed.''"

text \<open>\<^verbatim>\<open>forward\<close> (lines 78-93), which \<^verbatim>\<open>__call__\<close> (lines 71-72) passes its argument to.
  Calling \<^verbatim>\<open>self._cs_fun\<close> while it is \<^verbatim>\<open>None\<close> would be a \<^verbatim>\<open>TypeError\<close>.\<close>

definition forward :: "env \<Rightarrow> l4casadi \<Rightarrow> cs_expr \<Rightarrow> l4casadi \<times> cs_expr io" where
  "forward env self inp =
     (if has_batch self \<and> snd (cs_shape inp) \<noteq> 1 then (self, io_raise (ValueError batch_msg))
      else if naive self
      then (self, call_result (NaiveModelCall inp) InModel (naive_model_call env inp))
      else
        (case (if \<not> built self then build env self inp else (self, io_return ())) of
           (s1, Inl e, l1) \<Rightarrow> (s1, Inl e, l1)
         | (s1, Inr _, l1) \<Rightarrow>
        (case (if cs_fun s1 = None then load_built_library_as_external_cs_fun env s1
               else (s1, io_return ())) of
           (s2, Inl e, l2) \<Rightarrow> (s2, Inl e, l1 @ l2)
         | (s2, Inr _, l2) \<Rightarrow>
        (case cs_fun s2 of
           None \<Rightarrow> (s2, Inl (TypeError ''NoneType object is not callable''), l1 @ l2)
         | Some f \<Rightarrow>
             (s2, io_bind (Inr (), l1 @ l2)
                    (\<lambda>_. call_result (CsCall f inp) InCsCall (cs_call env f inp)))))))"

definition call :: "env \<Rightarrow> l4casadi \<Rightarrow> cs_expr \<Rightarrow> l4casadi \<times> cs_expr io" where
  "call env self inp = forward env self inp"

subsection \<open>The two-tier fallback in the words of the specification\<close>



subsection \<open>Concrete worlds and objects\<close>

text \<open>A world in which every collaborator succeeds: the model is the identity, paths are
  joined with a slash, the build directory does not exist yet, gcc returns 0.\<close>

definition env_ok :: env where
  "env_ok =
     \<lparr> path_exists = (\<lambda>p. False),
       makedirs = (\<lambda>p. True),
       joinpath = (\<lambda>d f. d @ ''/'' @ f),
       abs_posix = (\<lambda>p. ''/home/user/'' @ p),
       pkg_dir = ''/site-packages/l4casadi'',
       is_darwin = False,
       glibcxx_use_cxx11_abi = True,
       device_ok = (\<lambda>d. True),
       model_call = (\<lambda>t. Some t),
       naive_model_call = (\<lambda>e. Some e),
       jit_trace_save = (\<lambda>m t p. True),
       ts_compile_save = (\<lambda>m p. True),
       make_fx_jacrev = (\<lambda>t. Some (FxGraph 1)),
       make_fx_hessian = (\<lambda>t. Some (FxGraph 2)),
       render_casadi_c_template = (\<lambda>vs p. True),
       cs_generate = (\<lambda>n i out p. True),
       shutil_move = (\<lambda>a b. True),
       os_system = (\<lambda>c. 0),
       cs_external = (\<lambda>n p. True),
       cs_call = (\<lambda>f e. Some e) \<rparr>"

text \<open>The same world, but \<^verbatim>\<open>make_fx\<close> of the Jacobian raises.\<close>

definition env_jac_trace_fails :: env where
  "env_jac_trace_fails = env_ok\<lparr>make_fx_jacrev := (\<lambda>t. None)\<rparr>"

text \<open>The same world, but \<^verbatim>\<open>make_fx\<close> of the Hessian raises.\<close>

definition env_hess_trace_fails :: env where
  "env_hess_trace_fails = env_ok\<lparr>make_fx_hessian := (\<lambda>t. None)\<rparr>"

text \<open>The same world, but \<^verbatim>\<open>torch.jit.trace(...).save\<close> raises (scripting works).\<close>

definition env_trace_save_fails :: env where
  "env_trace_save_fails = env_ok\<lparr>jit_trace_save := (\<lambda>m t p. False)\<rparr>"

text \<open>The same world, but neither scripting nor tracing a graph module can be saved.\<close>

definition env_no_graph_save :: env where
  "env_no_graph_save =
     env_ok\<lparr>jit_trace_save := (\<lambda>m t p. m = TheModel), ts_compile_save := (\<lambda>m p. False)\<rparr>"

text \<open>The same world, but tracing a graph module raises (the model itself can be traced),
  and the same world, but scripting raises.\<close>

definition env_graph_trace_fails :: env where
  "env_graph_trace_fails = env_ok\<lparr>jit_trace_save := (\<lambda>m t p. m = TheModel)\<rparr>"

definition env_script_fails :: env where
  "env_script_fails = env_ok\<lparr>ts_compile_save := (\<lambda>m p. False)\<rparr>"

text \<open>The same world, but gcc exits with status 1 (\<^verbatim>\<open>os.system\<close> returns 256).\<close>

definition env_gcc_fails :: env where
  "env_gcc_fails = env_ok\<lparr>os_system := (\<lambda>c. 256)\<rparr>"

text \<open>The same world with a model that returns a vector of length 5, and one that returns
  a tensor of shape 4 by 2 by 3.\<close>

definition env_vector_out :: env where
  "env_vector_out = env_ok\<lparr>model_call := (\<lambda>t. Some (Tensor [5] [0, 0, 0, 0, 0] ''cpu''))\<rparr>"

definition env_cube_out :: env where
  "env_cube_out = env_ok\<lparr>model_call := (\<lambda>t. Some (Tensor [4, 2, 3] (replicate 24 0) ''cpu''))\<rparr>"

text \<open>The same world with a model that returns a batch of one row of length 5.\<close>

definition env_row_out :: env where
  "env_row_out = env_ok\<lparr>model_call := (\<lambda>t. Some (Tensor [1, 5] [0, 0, 0, 0, 0] ''cpu''))\<rparr>"

text \<open>A batched torch model with the default arguments of \<^verbatim>\<open>__init__\<close>, a torch model
  without batch dimension, and a naive model.\<close>

definition batched_model :: l4casadi where
  "batched_model = init False True ''cpu'' ''l4casadi_f'' ''_l4c_generated'' None True True"

definition unbatched_model :: l4casadi where
  "unbatched_model = init False False ''cpu'' ''l4casadi_f'' ''_l4c_generated'' None True True"

definition naive_model :: l4casadi where
  "naive_model = init True False ''cpu'' ''l4casadi_f'' ''_l4c_generated'' None True True"

text \<open>A naive model constructed with the default \<^verbatim>\<open>model_expects_batch_dim=True\<close>.\<close>

definition naive_batched_model :: l4casadi where
  "naive_batched_model = init True True ''cpu'' ''l4casadi_f'' ''_l4c_generated'' None True True"

text \<open>A symbolic column vector with two rows, and a 2 by 3 matrix.\<close>

definition vec2 :: cs_expr where
  "vec2 = CsExpr ''x'' 2 1"

definition mat23 :: cs_expr where
  "mat23 = CsExpr ''x'' 2 3"

section \<open>Properties\<close>

subsection \<open>Unfolding the sequencing combinators\<close>

lemmas io_simps = io_return_def io_raise_def io_bind_def io_catch_def call_unit_def
  call_result_def print_msg_def to_device_def

lemmas world_simps = env_ok_def env_vector_out_def env_cube_out_def env_row_out_def env_jac_trace_fails_def
  env_hess_trace_fails_def env_trace_save_fails_def env_no_graph_save_def env_gcc_fails_def
  env_graph_trace_fails_def env_script_fails_def
  batched_model_def unbatched_model_def naive_model_def naive_batched_model_def init_def vec2_def mat23_def
  cs_shape_def zeros_def

text \<open>The serializer in closed form: it always returns, with \<open>True\<close> when one of the two
  attempts completed; tracing is attempted exactly when scripting raised.\<close>

lemma jit_compile_and_save_eq:
  "jit_compile_and_save env m p d =
     (Inr (ts_compile_save env m p \<or> jit_trace_save env m d p),
      TsCompileSave m p # (if ts_compile_save env m p then [] else [JitTraceSave m d p]))"
  by (simp add: jit_compile_and_save_def io_simps)

lemmas export_simps = export_torch_traces_def jit_compile_and_save_eq trace_jac_model_def
  trace_hess_model_def Let_def

subsection \<open>The batch check of \<open>forward\<close>\<close>

text \<open>
  C7. For a model that expects a batch dimension, \<open>forward\<close> on an input whose trailing
  dimension is not 1 raises the \<^verbatim>\<open>ValueError\<close> of line 81 at once: the object is unchanged
  and the event log is empty, so no build step has run and no file has been touched.
\<close>

theorem forward_rejects_non_vector_batched:
  assumes "has_batch self" and "snd (cs_shape inp) \<noteq> 1"
  shows "forward env self inp = (self, Inl (ValueError batch_msg), [])"
  using assms by (simp add: forward_def io_raise_def)

theorem forward_rejects_non_vector_batched_witness:
  "has_batch batched_model \<and> snd (cs_shape mat23) \<noteq> 1
   \<and> forward env_ok batched_model mat23 = (batched_model, Inl (ValueError batch_msg), [])"
  using forward_rejects_non_vector_batched [of batched_model mat23 env_ok]
  by (simp add: batched_model_def init_def mat23_def cs_shape_def)

subsection \<open>Derivative traces\<close>

text \<open>
  C6. With the Hessian requested, when \<^verbatim>\<open>make_fx\<close> of the Hessian raises on the probe
  input, \<open>export_torch_traces\<close> behaves as if the Hessian had not been requested, apart
  from the one tracing attempt in the log: whatever it raises was raised by an earlier step,
  never by the Hessian trace; when it returns, the Hessian flag is \<open>False\<close>; and every
  serialization attempt of a graph module in the log is one of the Jacobian graph, so the
  Hessian serialization is not attempted.
\<close>

theorem hessian_trace_failure_is_caught:
  assumes "with_hessian self"
    and "to_device env (device self)
           (if has_batch self then zeros [1, rows] else zeros [rows, cols]) = (Inr d_inp, [])"
    and "make_fx_hessian env d_inp = None"
  shows "export_torch_traces env self rows cols =
           (case export_torch_traces env (self\<lparr>with_hessian := False\<rparr>) rows cols of
              (Inl e, l) \<Rightarrow> (Inl e, l)
            | (Inr (has_jac, has_hess), l) \<Rightarrow> (Inr (has_jac, False), l @ [MakeFxHessian d_inp]))
         \<and> fst (export_torch_traces env self rows cols) \<noteq> Inl (Raised InMakeFxHessian)
         \<and> (\<forall>has_jac has_hess. fst (export_torch_traces env self rows cols) = Inr (has_jac, has_hess)
              \<longrightarrow> \<not> has_hess)
         \<and> (\<forall>g p. TsCompileSave (Graph g) p \<in> set (snd (export_torch_traces env self rows cols))
              \<longrightarrow> with_jacobian self \<and> make_fx_jacrev env d_inp = Some g)
         \<and> (\<forall>g t p. JitTraceSave (Graph g) t p \<in> set (snd (export_torch_traces env self rows cols))
              \<longrightarrow> with_jacobian self \<and> make_fx_jacrev env d_inp = Some g)"
  using assms
  by (auto simp add: export_simps io_simps split: option.splits if_splits)

theorem hessian_trace_failure_is_caught_witness:
  "with_hessian batched_model
   \<and> to_device env_hess_trace_fails (device batched_model)
        (if has_batch batched_model then zeros [1, 2] else zeros [2, 1])
      = (Inr (Tensor [1, 2] [0, 0] ''cpu''), [])
   \<and> make_fx_hessian env_hess_trace_fails (Tensor [1, 2] [0, 0] ''cpu'') = None
   \<and> fst (export_torch_traces env_hess_trace_fails batched_model 2 1) = Inr (True, False)
   \<and> fst (export_torch_traces env_hess_trace_fails batched_model 2 1) \<noteq> Inl (Raised InMakeFxHessian)"
  using hessian_trace_failure_is_caught
          [of batched_model env_hess_trace_fails 2 1 "Tensor [1, 2] [0, 0] ''cpu''"]
  by (simp add: world_simps io_simps export_simps numeral_2_eq_2)

text \<open>
  C1. The Jacobian trace has no such handler (lines 220-221): in a world where only
  \<^verbatim>\<open>make_fx\<close> of the Jacobian raises, \<open>build\<close> of a batched model with the default
  arguments raises that exception after the forward trace has been saved. Nothing is
  rendered or compiled and \<^verbatim>\<open>_built\<close> stays \<open>False\<close>.
\<close>

theorem build_jacobian_trace_failure_propagates:
  "build env_jac_trace_fails batched_model vec2 =
     (batched_model, Inl (Raised InMakeFxJacrev),
      [PathExists ''_l4c_generated'', MakeDirs ''_l4c_generated'',
       JitTraceSave TheModel (Tensor [1, 2] [0, 0] ''cpu'') ''_l4c_generated/l4casadi_f_forward.pt'',
       MakeFxJacrev (Tensor [1, 2] [0, 0] ''cpu'')])"
  by (simp add: build_def generate_def maybe_make_generation_dir_def world_simps io_simps
        export_simps numeral_2_eq_2)

subsection \<open>Serialization\<close>




subsection \<open>Where the events of a run come from\<close>

lemma render_event_of_template:
  assumes "Render vars out_file
             \<in> set (snd (generate_cpp_function_template env self rows cols has_jac has_hess))"
  shows "\<exists>probe out rows_out cols_out.
           to_device env (device self)
             (if has_batch self then zeros [1, rows] else zeros [rows, cols]) = (Inr probe, [])
           \<and> model_call env probe = Some out
           \<and> out_dims (has_batch self) (shape out) = Inr (rows_out, cols_out)
           \<and> vars = gen_params self
                      (case model_search_path self of
                         None \<Rightarrow> abs_posix env (build_dir self) | Some p \<Rightarrow> p)
                      rows cols rows_out cols_out has_jac has_hess
           \<and> out_file = joinpath env (build_dir self) (name self @ ''.cpp'')"
  using assms
  by (auto simp add: generate_cpp_function_template_def io_simps Let_def
        split: option.splits if_splits sum.splits prod.splits)

lemma export_has_no_render:
  "Render vars out_file \<notin> set (snd (export_torch_traces env self rows cols))"
  by (auto simp add: export_simps io_simps split: option.splits if_splits)

lemma render_event_of_generate:
  assumes "Render vars out_file \<in> set (snd (generate env self inp))"
  shows "\<exists>has_jac has_hess.
           fst (export_torch_traces env self (cs_rows inp) (cs_cols inp)) = Inr (has_jac, has_hess)
           \<and> Render vars out_file
               \<in> set (snd (generate_cpp_function_template env self (cs_rows inp) (cs_cols inp)
                             has_jac has_hess))"
proof -
  obtain r l where e: "export_torch_traces env self (cs_rows inp) (cs_cols inp) = (r, l)"
    by (cases "export_torch_traces env self (cs_rows inp) (cs_cols inp)")
  have nl: "Render vars out_file \<notin> set l"
    using export_has_no_render [of vars out_file env self "cs_rows inp" "cs_cols inp"] e by simp
  show ?thesis
    using assms e nl
    by (cases r)
       (auto simp add: generate_def cs_shape_def io_bind_def io_return_def print_msg_def
          split: prod.splits if_splits)
qed

lemma io_bind_event:
  assumes "ev \<in> set (snd (io_bind m f))"
  shows "ev \<in> set (snd m) \<or> (\<exists>x. fst m = Inr x \<and> ev \<in> set (snd (f x)))"
  using assms by (auto simp add: io_bind_def split: prod.splits sum.splits)

lemma io_bind_result:
  "fst (io_bind m f) = (case fst m of Inl e \<Rightarrow> Inl e | Inr x \<Rightarrow> fst (f x))"
  by (auto simp add: io_bind_def split: prod.splits sum.splits)

lemma io_bind_log:
  "snd (io_bind m f) = (case fst m of Inl e \<Rightarrow> snd m | Inr x \<Rightarrow> snd m @ snd (f x))"
  by (auto simp add: io_bind_def split: prod.splits sum.splits)

lemma build_log:
  "snd (snd (build env self inp)) =
     snd (io_bind (maybe_make_generation_dir env self)
            (\<lambda>_. io_bind (if naive self then build_naive env self inp else generate env self inp)
                    (\<lambda>_. compile env self)))"
  by (simp add: build_def Let_def split: sum.splits)

lemma build_result:
  "fst (snd (build env self inp)) =
     fst (io_bind (maybe_make_generation_dir env self)
            (\<lambda>_. io_bind (if naive self then build_naive env self inp else generate env self inp)
                    (\<lambda>_. compile env self)))"
  by (simp add: build_def Let_def split: sum.splits)

lemma build_object:
  "fst (build env self inp) =
     (case fst (snd (build env self inp)) of Inl e \<Rightarrow> self | Inr u \<Rightarrow> self\<lparr>built := True\<rparr>)"
  by (simp add: build_def Let_def split: sum.splits)

lemma maybe_make_generation_dir_events:
  "set (snd (maybe_make_generation_dir env self))
     \<subseteq> {PathExists (build_dir self), MakeDirs (build_dir self)}"
  by (auto simp add: maybe_make_generation_dir_def io_simps split: if_splits)

lemma compile_events: "snd (compile env self) = [System (os_cmd env self)]"
  by (simp add: compile_def Let_def)

lemma build_naive_has_no_render:
  "Render vars out_file \<notin> set (snd (build_naive env self inp))"
  by (auto simp add: build_naive_def cs_shape_def io_simps Let_def split: option.splits if_splits)

lemma render_event_of_build:
  assumes "Render vars out_file \<in> set (snd (snd (build env self inp)))"
  shows "\<not> naive self \<and> Render vars out_file \<in> set (snd (generate env self inp))"
proof -
  from assms have
    "Render vars out_file \<in> set (snd (maybe_make_generation_dir env self))
     \<or> Render vars out_file
          \<in> set (snd (io_bind (if naive self then build_naive env self inp else generate env self inp)
                         (\<lambda>_. compile env self)))"
    unfolding build_log by (blast dest: io_bind_event)
  moreover have "Render vars out_file \<notin> set (snd (maybe_make_generation_dir env self))"
    using maybe_make_generation_dir_events [of env self] by auto
  ultimately have
    "Render vars out_file
       \<in> set (snd (if naive self then build_naive env self inp else generate env self inp))"
    by (auto dest!: io_bind_event simp add: compile_events)
  then show ?thesis
    using build_naive_has_no_render [of vars out_file env self inp] by (auto split: if_splits)
qed

subsection \<open>The shape metadata\<close>

lemma out_dims_vector: "out_dims False [n] = Inr (n, 1)"
  by (simp add: out_dims_def)

lemma rev_last_two:
  assumes "2 \<le> length xs"
  shows "\<exists>ys. rev xs = last xs # xs ! (length xs - 2) # ys"
proof -
  from assms obtain ys c where a: "xs = ys @ [c]"
    by (cases xs rule: rev_cases) auto
  with assms obtain zs r where b: "ys = zs @ [r]"
    by (cases ys rule: rev_cases) auto
  show ?thesis
    unfolding a b by (simp add: nth_append)
qed

lemma out_dims_matrix:
  assumes "2 \<le> length xs"
  shows "out_dims False xs = Inr (xs ! (length xs - 2), last xs)"
proof -
  from rev_last_two [OF assms] obtain ys where r: "rev xs = last xs # xs ! (length xs - 2) # ys" ..
  from assms have "length xs \<noteq> 1" by simp
  then show ?thesis unfolding out_dims_def r by simp
qed

lemma template_run:
  assumes "to_device env (device self)
             (if has_batch self then zeros [1, rows] else zeros [rows, cols]) = (Inr probe, [])"
    and "model_call env probe = Some out"
    and "out_dims (has_batch self) (shape out) = Inr (rows_out, cols_out)"
  shows "snd (generate_cpp_function_template env self rows cols has_jac has_hess) =
           [ModelCall probe,
            Render (gen_params self
                      (case model_search_path self of
                         None \<Rightarrow> abs_posix env (build_dir self) | Some p \<Rightarrow> p)
                      rows cols rows_out cols_out has_jac has_hess)
              (joinpath env (build_dir self) (name self @ ''.cpp''))]"
  using assms
  by (simp add: generate_cpp_function_template_def io_bind_def call_result_def call_unit_def Let_def)

text \<open>
  C10. Without batch dimension, when the model returns on the zero-filled probe a tensor with
  one dimension of length \<open>n\<close>, the template is rendered with \<open>rows_out = n\<close> and
  \<open>cols_out = 1\<close>; when the output has two or more dimensions, \<open>rows_out\<close> and
  \<open>cols_out\<close> are its last two dimensions.
\<close>

theorem non_batch_output_shape:
  assumes "\<not> has_batch self"
    and "to_device env (device self) (zeros [rows, cols]) = (Inr probe, [])"
    and "model_call env probe = Some out"
  shows "(\<forall>n. shape out = [n] \<longrightarrow>
            (\<exists>vars. snd (generate_cpp_function_template env self rows cols has_jac has_hess)
                       = [ModelCall probe,
                          Render vars (joinpath env (build_dir self) (name self @ ''.cpp''))]
                \<and> map_of vars ''rows_out'' = Some (PyInt n)
                \<and> map_of vars ''cols_out'' = Some (PyInt 1)))
       \<and> (2 \<le> length (shape out) \<longrightarrow>
            (\<exists>vars. snd (generate_cpp_function_template env self rows cols has_jac has_hess)
                       = [ModelCall probe,
                          Render vars (joinpath env (build_dir self) (name self @ ''.cpp''))]
                \<and> map_of vars ''rows_out'' = Some (PyInt (shape out ! (length (shape out) - 2)))
                \<and> map_of vars ''cols_out'' = Some (PyInt (shape out ! (length (shape out) - 1)))))"
proof (intro conjI allI impI)
  fix n assume "shape out = [n]"
  with assms have "out_dims (has_batch self) (shape out) = Inr (n, 1)"
    by (simp add: out_dims_vector)
  from template_run [of env self rows cols probe out n 1 has_jac has_hess] assms this
  show "\<exists>vars. snd (generate_cpp_function_template env self rows cols has_jac has_hess)
                       = [ModelCall probe,
                          Render vars (joinpath env (build_dir self) (name self @ ''.cpp''))]
                \<and> map_of vars ''rows_out'' = Some (PyInt n)
                \<and> map_of vars ''cols_out'' = Some (PyInt 1)"
    by (simp add: gen_params_def)
next
  assume l: "2 \<le> length (shape out)"
  then have "shape out \<noteq> []" by auto
  then have "last (shape out) = shape out ! (length (shape out) - 1)"
    by (rule last_conv_nth)
  with assms l have
    "out_dims (has_batch self) (shape out)
       = Inr (shape out ! (length (shape out) - 2), shape out ! (length (shape out) - 1))"
    by (simp add: out_dims_matrix)
  from template_run [of env self rows cols probe out _ _ has_jac has_hess] assms this
  show "\<exists>vars. snd (generate_cpp_function_template env self rows cols has_jac has_hess)
                       = [ModelCall probe,
                          Render vars (joinpath env (build_dir self) (name self @ ''.cpp''))]
                \<and> map_of vars ''rows_out'' = Some (PyInt (shape out ! (length (shape out) - 2)))
                \<and> map_of vars ''cols_out'' = Some (PyInt (shape out ! (length (shape out) - 1)))"
    by (simp add: gen_params_def)
qed

theorem non_batch_output_shape_witness:
  "\<not> has_batch unbatched_model
   \<and> to_device env_vector_out (device unbatched_model) (zeros [2, 3])
       = (Inr (Tensor [2, 3] [0, 0, 0, 0, 0, 0] ''cpu''), [])
   \<and> model_call env_vector_out (Tensor [2, 3] [0, 0, 0, 0, 0, 0] ''cpu'')
       = Some (Tensor [5] [0, 0, 0, 0, 0] ''cpu'')
   \<and> (\<exists>vars. snd (generate_cpp_function_template env_vector_out unbatched_model 2 3 True True)
                = [ModelCall (Tensor [2, 3] [0, 0, 0, 0, 0, 0] ''cpu''),
                   Render vars ''_l4c_generated/l4casadi_f.cpp'']
         \<and> map_of vars ''rows_out'' = Some (PyInt 5)
         \<and> map_of vars ''cols_out'' = Some (PyInt 1))
   \<and> model_call env_cube_out (Tensor [2, 3] [0, 0, 0, 0, 0, 0] ''cpu'')
       = Some (Tensor [4, 2, 3] (replicate 24 0) ''cpu'')
   \<and> (\<exists>vars. snd (generate_cpp_function_template env_cube_out unbatched_model 2 3 True True)
                = [ModelCall (Tensor [2, 3] [0, 0, 0, 0, 0, 0] ''cpu''),
                   Render vars ''_l4c_generated/l4casadi_f.cpp'']
         \<and> map_of vars ''rows_out'' = Some (PyInt 2)
         \<and> map_of vars ''cols_out'' = Some (PyInt 3))"
proof -
  let ?p = "Tensor [2, 3] [0, 0, 0, 0, 0, 0] ''cpu''"
  have d1: "to_device env_vector_out (device unbatched_model) (zeros [2, 3]) = (Inr ?p, [])"
    by (simp add: world_simps io_simps eval_nat_numeral)
  have d2: "to_device env_cube_out (device unbatched_model) (zeros [2, 3]) = (Inr ?p, [])"
    by (simp add: world_simps io_simps eval_nat_numeral)
  have m1: "model_call env_vector_out ?p = Some (Tensor [5] [0, 0, 0, 0, 0] ''cpu'')"
    by (simp add: world_simps)
  have m2: "model_call env_cube_out ?p = Some (Tensor [4, 2, 3] (replicate 24 0) ''cpu'')"
    by (simp add: world_simps)
  have nb: "\<not> has_batch unbatched_model"
    by (simp add: world_simps)
  from non_batch_output_shape [OF nb d1 m1, of True True]
  have a: "\<exists>vars. snd (generate_cpp_function_template env_vector_out unbatched_model 2 3 True True)
                = [ModelCall ?p, Render vars ''_l4c_generated/l4casadi_f.cpp'']
         \<and> map_of vars ''rows_out'' = Some (PyInt 5)
         \<and> map_of vars ''cols_out'' = Some (PyInt 1)"
    by (simp add: world_simps)
  from non_batch_output_shape [OF nb d2 m2, of True True]
  have b: "\<exists>vars. snd (generate_cpp_function_template env_cube_out unbatched_model 2 3 True True)
                = [ModelCall ?p, Render vars ''_l4c_generated/l4casadi_f.cpp'']
         \<and> map_of vars ''rows_out'' = Some (PyInt 2)
         \<and> map_of vars ''cols_out'' = Some (PyInt 3)"
    by (simp add: world_simps)
  from nb d1 m1 a m2 b show ?thesis by simp
qed

subsection \<open>The template variables\<close>

lemma io_bind_returns:
  assumes "fst (io_bind m f) = Inr y"
  shows "\<exists>x. fst m = Inr x \<and> fst (f x) = Inr y"
  using assms by (auto simp add: io_bind_def split: prod.splits sum.splits)

lemma template_returns_renders:
  assumes "fst (generate_cpp_function_template env self rows cols has_jac has_hess) = Inr ()"
  shows "\<exists>vars. Render vars (joinpath env (build_dir self) (name self @ ''.cpp''))
                   \<in> set (snd (generate_cpp_function_template env self rows cols has_jac has_hess))"
  using assms
  by (auto simp add: generate_cpp_function_template_def io_simps Let_def
        split: option.splits if_splits sum.splits prod.splits)

lemma generate_result:
  "fst (generate env self inp) =
     (case fst (export_torch_traces env self (cs_rows inp) (cs_cols inp)) of
        Inl e \<Rightarrow> Inl e
      | Inr (has_jac, has_hess) \<Rightarrow>
          fst (generate_cpp_function_template env self (cs_rows inp) (cs_cols inp)
                 has_jac has_hess))"
  by (simp add: generate_def cs_shape_def io_bind_result print_msg_def io_return_def
        split: sum.splits prod.splits)

lemma generate_log:
  "snd (generate env self inp) =
     (case fst (export_torch_traces env self (cs_rows inp) (cs_cols inp)) of
        Inl e \<Rightarrow> snd (export_torch_traces env self (cs_rows inp) (cs_cols inp))
      | Inr (has_jac, has_hess) \<Rightarrow>
          snd (export_torch_traces env self (cs_rows inp) (cs_cols inp))
          @ (if \<not> has_jac \<and> with_jacobian self then [Print jac_msg] else [])
          @ (if \<not> has_hess \<and> with_hessian self then [Print hess_msg] else [])
          @ snd (generate_cpp_function_template env self (cs_rows inp) (cs_cols inp)
                   has_jac has_hess))"
  by (simp add: generate_def cs_shape_def io_bind_result io_bind_log print_msg_def io_return_def
        split: sum.splits prod.splits)

lemma generate_returns_renders:
  assumes "fst (generate env self inp) = Inr ()"
  shows "\<exists>vars. Render vars (joinpath env (build_dir self) (name self @ ''.cpp''))
                   \<in> set (snd (generate env self inp))"
proof -
  from assms obtain has_jac has_hess where
    e: "fst (export_torch_traces env self (cs_rows inp) (cs_cols inp)) = Inr (has_jac, has_hess)"
    and t: "fst (generate_cpp_function_template env self (cs_rows inp) (cs_cols inp)
                   has_jac has_hess) = Inr ()"
    unfolding generate_result by (auto split: sum.splits prod.splits)
  from template_returns_renders [OF t] obtain vars where
    "Render vars (joinpath env (build_dir self) (name self @ ''.cpp''))
       \<in> set (snd (generate_cpp_function_template env self (cs_rows inp) (cs_cols inp)
                     has_jac has_hess))" ..
  with e show ?thesis
    unfolding generate_log by auto
qed

lemma build_returns_generate_returns:
  assumes "\<not> naive self" and "fst (snd (build env self inp)) = Inr ()"
  shows "fst (generate env self inp) = Inr ()
         \<and> set (snd (generate env self inp)) \<subseteq> set (snd (snd (build env self inp)))"
  using assms unfolding build_result build_log
  by (auto simp add: io_bind_result io_bind_log split: sum.splits)

text \<open>
  C9. Every build of a model that is not naive and returns has rendered the template into
  \<open>build_dir / (name + ".cpp")\<close>. Every rendering in a build is one of a model that is not
  naive, with exactly the ten keys \<open>model_path\<close>, \<open>device\<close>, \<open>name\<close>, \<open>rows_in\<close>,
  \<open>cols_in\<close>, \<open>rows_out\<close>, \<open>cols_out\<close>, \<open>has_jac\<close>, \<open>has_hess\<close> and
  \<open>model_expects_batch_dim\<close>, the three flags as the strings \<open>true\<close> or \<open>false\<close>
  (the two availability flags as \<open>export_torch_traces\<close> returned them), into that file.
\<close>

theorem render_substitution:
  "(\<not> naive self \<and> fst (snd (build env self inp)) = Inr () \<longrightarrow>
      (\<exists>vars. Render vars (joinpath env (build_dir self) (name self @ ''.cpp''))
                 \<in> set (snd (snd (build env self inp)))))
   \<and> (\<forall>vars out_file. Render vars out_file \<in> set (snd (snd (build env self inp))) \<longrightarrow>
        \<not> naive self
        \<and> map fst vars =
            [''model_path'', ''device'', ''name'', ''rows_in'', ''cols_in'', ''rows_out'',
             ''cols_out'', ''has_jac'', ''has_hess'', ''model_expects_batch_dim'']
        \<and> (\<exists>has_jac has_hess.
              fst (export_torch_traces env self (fst (cs_shape inp)) (snd (cs_shape inp)))
                = Inr (has_jac, has_hess)
              \<and> map_of vars ''has_jac'' = Some (PyStr (if has_jac then ''true'' else ''false''))
              \<and> map_of vars ''has_hess'' = Some (PyStr (if has_hess then ''true'' else ''false'')))
        \<and> map_of vars ''model_expects_batch_dim''
            = Some (PyStr (if has_batch self then ''true'' else ''false''))
        \<and> out_file = joinpath env (build_dir self) (name self @ ''.cpp''))"
proof (intro conjI allI impI)
  assume a: "\<not> naive self \<and> fst (snd (build env self inp)) = Inr ()"
  from build_returns_generate_returns [of self env inp] a
  have g: "fst (generate env self inp) = Inr ()"
    and s: "set (snd (generate env self inp)) \<subseteq> set (snd (snd (build env self inp)))"
    by simp_all
  from generate_returns_renders [OF g] s
  show "\<exists>vars. Render vars (joinpath env (build_dir self) (name self @ ''.cpp''))
                 \<in> set (snd (snd (build env self inp)))"
    by blast
next
  fix vars out_file
  assume r: "Render vars out_file \<in> set (snd (snd (build env self inp)))"
  from render_event_of_build [OF r]
  have n: "\<not> naive self" and g: "Render vars out_file \<in> set (snd (generate env self inp))"
    by simp_all
  from render_event_of_generate [OF g] obtain has_jac has_hess where
    e: "fst (export_torch_traces env self (cs_rows inp) (cs_cols inp)) = Inr (has_jac, has_hess)"
    and t: "Render vars out_file
       \<in> set (snd (generate_cpp_function_template env self (cs_rows inp) (cs_cols inp)
                     has_jac has_hess))"
    by blast
  from render_event_of_template [OF t] obtain rows_out cols_out where
    v: "vars = gen_params self
                      (case model_search_path self of
                         None \<Rightarrow> abs_posix env (build_dir self) | Some p \<Rightarrow> p)
                      (cs_rows inp) (cs_cols inp) rows_out cols_out has_jac has_hess"
    and o: "out_file = joinpath env (build_dir self) (name self @ ''.cpp'')"
    by blast
  show "\<not> naive self" by (rule n)
  show "map fst vars =
            [''model_path'', ''device'', ''name'', ''rows_in'', ''cols_in'', ''rows_out'',
             ''cols_out'', ''has_jac'', ''has_hess'', ''model_expects_batch_dim'']"
    unfolding v by (simp add: gen_params_def)
  show "\<exists>has_jac has_hess.
              fst (export_torch_traces env self (fst (cs_shape inp)) (snd (cs_shape inp)))
                = Inr (has_jac, has_hess)
              \<and> map_of vars ''has_jac'' = Some (PyStr (if has_jac then ''true'' else ''false''))
              \<and> map_of vars ''has_hess'' = Some (PyStr (if has_hess then ''true'' else ''false''))"
    using e unfolding v by (auto simp add: gen_params_def bool_str_def cs_shape_def)
  show "map_of vars ''model_expects_batch_dim''
            = Some (PyStr (if has_batch self then ''true'' else ''false''))"
    unfolding v by (simp add: gen_params_def bool_str_def)
  show "out_file = joinpath env (build_dir self) (name self @ ''.cpp'')" by (rule o)
qed

theorem render_substitution_witness:
  "\<not> naive batched_model \<and> fst (snd (build env_no_graph_save batched_model vec2)) = Inr ()
   \<and> Render
        [(''model_path'', PyStr ''/home/user/_l4c_generated''),
         (''device'', PyStr ''cpu''), (''name'', PyStr ''l4casadi_f''),
         (''rows_in'', PyInt 2), (''cols_in'', PyInt 1),
         (''rows_out'', PyInt 2), (''cols_out'', PyInt 1),
         (''has_jac'', PyStr ''false''), (''has_hess'', PyStr ''false''),
         (''model_expects_batch_dim'', PyStr ''true'')]
        ''_l4c_generated/l4casadi_f.cpp''
       \<in> set (snd (snd (build env_no_graph_save batched_model vec2)))
   \<and> (\<exists>vars. Render vars ''_l4c_generated/l4casadi_f.cpp''
                 \<in> set (snd (snd (build env_no_graph_save batched_model vec2))))"
proof -
  have b: "build env_no_graph_save batched_model vec2 =
    (batched_model\<lparr>built := True\<rparr>, Inr (),
     [PathExists ''_l4c_generated'', MakeDirs ''_l4c_generated'',
      JitTraceSave TheModel (Tensor [1, 2] [0, 0] ''cpu'') ''_l4c_generated/l4casadi_f_forward.pt'',
      MakeFxJacrev (Tensor [1, 2] [0, 0] ''cpu''),
      TsCompileSave (Graph (FxGraph 1)) ''_l4c_generated/l4casadi_f_jacrev.pt'',
      JitTraceSave (Graph (FxGraph 1)) (Tensor [1, 2] [0, 0] ''cpu'')
        ''_l4c_generated/l4casadi_f_jacrev.pt'',
      MakeFxHessian (Tensor [1, 2] [0, 0] ''cpu''),
      TsCompileSave (Graph (FxGraph 2)) ''_l4c_generated/l4casadi_f_hess.pt'',
      JitTraceSave (Graph (FxGraph 2)) (Tensor [1, 2] [0, 0] ''cpu'')
        ''_l4c_generated/l4casadi_f_hess.pt'',
      Print jac_msg, Print hess_msg,
      ModelCall (Tensor [1, 2] [0, 0] ''cpu''),
      Render
        [(''model_path'', PyStr ''/home/user/_l4c_generated''),
         (''device'', PyStr ''cpu''), (''name'', PyStr ''l4casadi_f''),
         (''rows_in'', PyInt 2), (''cols_in'', PyInt 1),
         (''rows_out'', PyInt 2), (''cols_out'', PyInt 1),
         (''has_jac'', PyStr ''false''), (''has_hess'', PyStr ''false''),
         (''model_expects_batch_dim'', PyStr ''true'')]
        ''_l4c_generated/l4casadi_f.cpp'',
      System (os_cmd env_no_graph_save batched_model)])"
    by (simp add: build_def generate_def generate_cpp_function_template_def out_dims_def
          gen_params_def bool_str_def maybe_make_generation_dir_def compile_def
          world_simps io_simps export_simps numeral_2_eq_2)
  have n: "\<not> naive batched_model" by (simp add: world_simps)
  from render_substitution [of batched_model env_no_graph_save vec2] n b
  show ?thesis by (simp add: world_simps)
qed

subsection \<open>The probe and the inferred shapes\<close>

lemma to_device_zeros:
  "to_device env d (zeros dims) = (Inr probe, [])
     \<longleftrightarrow> device_ok env d \<and> probe = Tensor dims (replicate (prod_list dims) 0) d"
  by (auto simp add: to_device_def zeros_def io_return_def io_raise_def)

lemma export_returns_device_ok:
  assumes "fst (export_torch_traces env self rows cols) = Inr flags"
  shows "device_ok env (device self)"
  using assms
  by (auto simp add: export_torch_traces_def to_device_def io_bind_def io_raise_def
        split: if_splits)

lemma out_dims_eq:
  "out_dims batch xs =
     (if xs = []
      then Inl (if batch then IndexError ''tuple index out of range''
                else ValueError ''not enough values to unpack (expected 2, got 0)'')
      else Inr (if batch then last xs
                else if length xs = 1 then hd xs else xs ! (length xs - 2),
                if batch \<or> length xs = 1 then 1 else last xs))"
proof (cases xs rule: rev_cases)
  case Nil
  then show ?thesis by (simp add: out_dims_def)
next
  case (snoc ys c)
  show ?thesis
  proof (cases ys rule: rev_cases)
    case Nil
    with snoc show ?thesis by (simp add: out_dims_def)
  next
    case (snoc zs r)
    with \<open>xs = ys @ [c]\<close> show ?thesis
      by (simp add: out_dims_def nth_append)
  qed
qed

text \<open>
  C8. Let \<open>(r, c)\<close> be the shape of the symbolic input of \<open>generate\<close>. The probe is the
  zero-filled tensor on the object's device of shape \<open>[r, c]\<close>, or \<open>[1, r]\<close> when the
  model expects a batch dimension: a batch axis of size 1 before the \<open>r\<close> entries of the
  input, which is a column vector (\<open>c = 1\<close>) whenever it passed the check of \<open>forward\<close>, so
  that the probe has the \<open>r * c\<close> entries of the input. Every rendering made by \<open>generate\<close>
  has \<open>rows_in = r\<close> and \<open>cols_in = c\<close>, and \<open>rows_out\<close> and \<open>cols_out\<close> computed from
  the shape of the tensor the model returned on the probe: with a batch dimension the last
  dimension and 1, without one the length and 1 for one dimension and the last two
  dimensions otherwise. And \<open>generate\<close> does render with these values, as its last step,
  whenever the traces were exported and the model returned a tensor with at least one
  dimension on the probe.
\<close>

theorem generate_shape_metadata:
  "(let r = fst (cs_shape inp); c = snd (cs_shape inp);
        dims = (if has_batch self then [1, r] else [r, c]);
        probe = Tensor dims (replicate (prod_list dims) 0) (device self);
        rows_of = (\<lambda>s::nat list. if has_batch self then last s
                        else if length s = 1 then hd s else s ! (length s - 2));
        cols_of = (\<lambda>s::nat list. if has_batch self \<or> length s = 1 then 1 else last s)
    in ((has_batch self \<longrightarrow> c = 1) \<longrightarrow> length (elems probe) = r * c)
       \<and> (\<forall>vars out_file.
             Render vars out_file \<in> set (snd (generate env self inp)) \<longrightarrow>
               map_of vars ''rows_in'' = Some (PyInt r)
               \<and> map_of vars ''cols_in'' = Some (PyInt c)
               \<and> (\<exists>out. model_call env probe = Some out \<and> shape out \<noteq> []
                      \<and> map_of vars ''rows_out'' = Some (PyInt (rows_of (shape out)))
                      \<and> map_of vars ''cols_out'' = Some (PyInt (cols_of (shape out)))))
       \<and> (\<forall>has_jac has_hess out.
             fst (export_torch_traces env self r c) = Inr (has_jac, has_hess)
             \<and> model_call env probe = Some out \<and> shape out \<noteq> [] \<longrightarrow>
               (\<exists>vars.
                  snd (generate env self inp) =
                    snd (export_torch_traces env self r c)
                    @ (if \<not> has_jac \<and> with_jacobian self then [Print jac_msg] else [])
                    @ (if \<not> has_hess \<and> with_hessian self then [Print hess_msg] else [])
                    @ [ModelCall probe,
                       Render vars (joinpath env (build_dir self) (name self @ ''.cpp''))]
                  \<and> map_of vars ''rows_in'' = Some (PyInt r)
                  \<and> map_of vars ''cols_in'' = Some (PyInt c)
                  \<and> map_of vars ''rows_out'' = Some (PyInt (rows_of (shape out)))
                  \<and> map_of vars ''cols_out'' = Some (PyInt (cols_of (shape out))))))"
proof -
  define r where "r = fst (cs_shape inp)"
  define c where "c = snd (cs_shape inp)"
  define dims where "dims = (if has_batch self then [1, r] else [r, c])"
  define probe where "probe = Tensor dims (replicate (prod_list dims) 0) (device self)"
  define rows_of where "rows_of = (\<lambda>s::nat list. if has_batch self then last s
                        else if length s = 1 then hd s else s ! (length s - 2))"
  define cols_of where "cols_of = (\<lambda>s::nat list. if has_batch self \<or> length s = 1 then 1 else last s)"
  have rc: "cs_rows inp = r" "cs_cols inp = c"
    by (simp_all add: r_def c_def cs_shape_def)
  have z: "(if has_batch self then zeros [1, r] else zeros [r, c]) = zeros dims"
    by (simp add: dims_def)
  have od: "out_dims (has_batch self) s =
              (if s = []
               then Inl (if has_batch self then IndexError ''tuple index out of range''
                         else ValueError ''not enough values to unpack (expected 2, got 0)'')
               else Inr (rows_of s, cols_of s))" for s
    unfolding rows_of_def cols_of_def by (rule out_dims_eq)
  have a: "(has_batch self \<longrightarrow> c = 1) \<longrightarrow> length (elems probe) = r * c"
    by (simp add: probe_def dims_def)
  have b: "map_of vars ''rows_in'' = Some (PyInt r)
               \<and> map_of vars ''cols_in'' = Some (PyInt c)
               \<and> (\<exists>out. model_call env probe = Some out \<and> shape out \<noteq> []
                      \<and> map_of vars ''rows_out'' = Some (PyInt (rows_of (shape out)))
                      \<and> map_of vars ''cols_out'' = Some (PyInt (cols_of (shape out))))"
    if h: "Render vars out_file \<in> set (snd (generate env self inp))" for vars out_file
  proof -
    from render_event_of_generate [OF h] obtain has_jac has_hess where
      "Render vars out_file
         \<in> set (snd (generate_cpp_function_template env self r c has_jac has_hess))"
      unfolding rc by blast
    from render_event_of_template [OF this] obtain p out rows_out cols_out where
      d: "to_device env (device self) (zeros dims) = (Inr p, [])"
      and m: "model_call env p = Some out"
      and o: "out_dims (has_batch self) (shape out) = Inr (rows_out, cols_out)"
      and v: "vars = gen_params self
                        (case model_search_path self of
                           None \<Rightarrow> abs_posix env (build_dir self) | Some q \<Rightarrow> q)
                        r c rows_out cols_out has_jac has_hess"
      unfolding z by blast
    from d have p: "p = probe"
      by (simp add: to_device_zeros probe_def)
    from o have s: "shape out \<noteq> []" and ro: "rows_out = rows_of (shape out)"
      and co: "cols_out = cols_of (shape out)"
      unfolding od by (auto split: if_splits)
    have "map_of vars ''rows_in'' = Some (PyInt r)" "map_of vars ''cols_in'' = Some (PyInt c)"
      "map_of vars ''rows_out'' = Some (PyInt (rows_of (shape out)))"
      "map_of vars ''cols_out'' = Some (PyInt (cols_of (shape out)))"
      unfolding v ro co by (simp_all add: gen_params_def)
    with m s p show ?thesis by blast
  qed
  have t: "\<exists>vars.
                  snd (generate env self inp) =
                    snd (export_torch_traces env self r c)
                    @ (if \<not> has_jac \<and> with_jacobian self then [Print jac_msg] else [])
                    @ (if \<not> has_hess \<and> with_hessian self then [Print hess_msg] else [])
                    @ [ModelCall probe,
                       Render vars (joinpath env (build_dir self) (name self @ ''.cpp''))]
                  \<and> map_of vars ''rows_in'' = Some (PyInt r)
                  \<and> map_of vars ''cols_in'' = Some (PyInt c)
                  \<and> map_of vars ''rows_out'' = Some (PyInt (rows_of (shape out)))
                  \<and> map_of vars ''cols_out'' = Some (PyInt (cols_of (shape out)))"
    if h: "fst (export_torch_traces env self r c) = Inr (has_jac, has_hess)
             \<and> model_call env probe = Some out \<and> shape out \<noteq> []" for has_jac has_hess out
  proof -
    from h have e: "fst (export_torch_traces env self r c) = Inr (has_jac, has_hess)"
      and m: "model_call env probe = Some out" and s: "shape out \<noteq> []"
      by simp_all
    from export_returns_device_ok [OF e]
    have d: "to_device env (device self)
               (if has_batch self then zeros [1, r] else zeros [r, c]) = (Inr probe, [])"
      unfolding z by (simp add: to_device_zeros probe_def)
    from s have o: "out_dims (has_batch self) (shape out)
                      = Inr (rows_of (shape out), cols_of (shape out))"
      unfolding od by simp
    from template_run [OF d m o, of has_jac has_hess]
    have l: "snd (generate_cpp_function_template env self r c has_jac has_hess) =
           [ModelCall probe,
            Render (gen_params self
                      (case model_search_path self of
                         None \<Rightarrow> abs_posix env (build_dir self) | Some q \<Rightarrow> q)
                      r c (rows_of (shape out)) (cols_of (shape out)) has_jac has_hess)
              (joinpath env (build_dir self) (name self @ ''.cpp''))]" .
    have g: "snd (generate env self inp) =
                    snd (export_torch_traces env self r c)
                    @ (if \<not> has_jac \<and> with_jacobian self then [Print jac_msg] else [])
                    @ (if \<not> has_hess \<and> with_hessian self then [Print hess_msg] else [])
                    @ snd (generate_cpp_function_template env self r c has_jac has_hess)"
      unfolding generate_log rc using e by simp
    show ?thesis
      unfolding g l by (simp add: gen_params_def)
  qed
  from a b t show ?thesis
    unfolding Let_def r_def [symmetric] c_def [symmetric] dims_def [symmetric]
      probe_def [symmetric] rows_of_def [symmetric] cols_of_def [symmetric]
    by blast
qed

theorem generate_shape_metadata_witness:
  "has_batch batched_model \<and> snd (cs_shape vec2) = 1
   \<and> fst (export_torch_traces env_row_out batched_model 2 1) = Inr (True, True)
   \<and> model_call env_row_out (Tensor [1, 2] [0, 0] ''cpu'')
       = Some (Tensor [1, 5] [0, 0, 0, 0, 0] ''cpu'')
   \<and> (\<exists>vars. snd (generate env_row_out batched_model vec2) =
                snd (export_torch_traces env_row_out batched_model 2 1)
                @ [ModelCall (Tensor [1, 2] [0, 0] ''cpu''),
                   Render vars ''_l4c_generated/l4casadi_f.cpp'']
         \<and> map_of vars ''rows_in'' = Some (PyInt 2)
         \<and> map_of vars ''cols_in'' = Some (PyInt 1)
         \<and> map_of vars ''rows_out'' = Some (PyInt 5)
         \<and> map_of vars ''cols_out'' = Some (PyInt 1))
   \<and> \<not> has_batch unbatched_model
   \<and> fst (export_torch_traces env_ok unbatched_model 2 3) = Inr (True, True)
   \<and> model_call env_ok (Tensor [2, 3] [0, 0, 0, 0, 0, 0] ''cpu'')
       = Some (Tensor [2, 3] [0, 0, 0, 0, 0, 0] ''cpu'')
   \<and> (\<exists>vars. snd (generate env_ok unbatched_model mat23) =
                snd (export_torch_traces env_ok unbatched_model 2 3)
                @ [ModelCall (Tensor [2, 3] [0, 0, 0, 0, 0, 0] ''cpu''),
                   Render vars ''_l4c_generated/l4casadi_f.cpp'']
         \<and> map_of vars ''rows_in'' = Some (PyInt 2)
         \<and> map_of vars ''cols_in'' = Some (PyInt 3)
         \<and> map_of vars ''rows_out'' = Some (PyInt 2)
         \<and> map_of vars ''cols_out'' = Some (PyInt 3))"
proof -
  note w = world_simps
  have b: "has_batch batched_model" "snd (cs_shape vec2) = 1" "fst (cs_shape vec2) = 2"
    "device batched_model = ''cpu''" "with_jacobian batched_model" "with_hessian batched_model"
    "build_dir batched_model = ''_l4c_generated''" "name batched_model = ''l4casadi_f''"
    by (simp_all add: w)
  have u: "\<not> has_batch unbatched_model" "snd (cs_shape mat23) = 3" "fst (cs_shape mat23) = 2"
    "device unbatched_model = ''cpu''" "with_jacobian unbatched_model"
    "with_hessian unbatched_model"
    "build_dir unbatched_model = ''_l4c_generated''" "name unbatched_model = ''l4casadi_f''"
    by (simp_all add: w)
  have j: "joinpath env_row_out a f = a @ ''/'' @ f" "joinpath env_ok a f = a @ ''/'' @ f" for a f
    by (simp_all add: w)
  have e1: "fst (export_torch_traces env_row_out batched_model 2 1) = Inr (True, True)"
    by (simp add: w io_simps export_simps)
  have e2: "fst (export_torch_traces env_ok unbatched_model 2 3) = Inr (True, True)"
    by (simp add: w io_simps export_simps)
  have m1: "model_call env_row_out (Tensor [1, 2] [0, 0] ''cpu'')
       = Some (Tensor [1, 5] [0, 0, 0, 0, 0] ''cpu'')"
    by (simp add: w)
  have m2: "model_call env_ok (Tensor [2, 3] [0, 0, 0, 0, 0, 0] ''cpu'')
       = Some (Tensor [2, 3] [0, 0, 0, 0, 0, 0] ''cpu'')"
    by (simp add: w)
  note t1 = generate_shape_metadata [of vec2 batched_model env_row_out, unfolded Let_def,
              THEN conjunct2, THEN conjunct2, rule_format, of True True
              "Tensor [1, 5] [0, 0, 0, 0, 0] ''cpu''"]
  note t2 = generate_shape_metadata [of mat23 unbatched_model env_ok, unfolded Let_def,
              THEN conjunct2, THEN conjunct2, rule_format, of True True
              "Tensor [2, 3] [0, 0, 0, 0, 0, 0] ''cpu''"]
  have a1: "\<exists>vars. snd (generate env_row_out batched_model vec2) =
                snd (export_torch_traces env_row_out batched_model 2 1)
                @ [ModelCall (Tensor [1, 2] [0, 0] ''cpu''),
                   Render vars ''_l4c_generated/l4casadi_f.cpp'']
         \<and> map_of vars ''rows_in'' = Some (PyInt 2)
         \<and> map_of vars ''cols_in'' = Some (PyInt 1)
         \<and> map_of vars ''rows_out'' = Some (PyInt 5)
         \<and> map_of vars ''cols_out'' = Some (PyInt 1)"
    using t1 e1 m1 by (simp add: b j numeral_2_eq_2)
  have a2: "\<exists>vars. snd (generate env_ok unbatched_model mat23) =
                snd (export_torch_traces env_ok unbatched_model 2 3)
                @ [ModelCall (Tensor [2, 3] [0, 0, 0, 0, 0, 0] ''cpu''),
                   Render vars ''_l4c_generated/l4casadi_f.cpp'']
         \<and> map_of vars ''rows_in'' = Some (PyInt 2)
         \<and> map_of vars ''cols_in'' = Some (PyInt 3)
         \<and> map_of vars ''rows_out'' = Some (PyInt 2)
         \<and> map_of vars ''cols_out'' = Some (PyInt 3)"
    using t2 e2 m2 by (simp add: u j eval_nat_numeral)
  from b(1,2) e1 m1 a1 u(1) e2 m2 a2 show ?thesis by blast
qed

subsection \<open>The toolchain invocation\<close>

lemma maybe_make_generation_dir_no_system:
  "filter is_System (snd (maybe_make_generation_dir env self)) = []"
  by (simp add: maybe_make_generation_dir_def io_simps is_System_def)

lemma export_no_system:
  "filter is_System (snd (export_torch_traces env self rows cols)) = []"
  by (auto simp add: export_simps io_simps is_System_def split: option.splits if_splits)

lemma template_no_system:
  "filter is_System (snd (generate_cpp_function_template env self rows cols has_jac has_hess)) = []"
  by (auto simp add: generate_cpp_function_template_def io_simps is_System_def Let_def
        split: option.splits if_splits sum.splits prod.splits)

lemma generate_no_system:
  "filter is_System (snd (generate env self inp)) = []"
  unfolding generate_log
  by (simp add: export_no_system template_no_system is_System_def split: sum.splits prod.splits)

lemma build_naive_no_system:
  "filter is_System (snd (build_naive env self inp)) = []"
  by (auto simp add: build_naive_def cs_shape_def io_simps is_System_def Let_def
        split: option.splits if_splits)

lemma no_system_mem:
  assumes "filter is_System xs = []"
  shows "System c \<notin> set xs"
  using assms by (auto simp add: filter_empty_conv is_System_def)

lemma compile_result:
  "fst (compile env self) =
     (if os_system env (os_cmd env self) \<noteq> 0
      then Inl (Exception (compile_failed_msg (os_cmd env self))) else Inr ())"
  by (simp add: compile_def Let_def)

lemma build_system_events:
  "filter is_System (snd (snd (build env self inp))) = [] \<or>
   filter is_System (snd (snd (build env self inp))) = [System (os_cmd env self)]"
  unfolding build_log
  by (simp add: io_bind_log io_bind_result maybe_make_generation_dir_no_system generate_no_system
        build_naive_no_system compile_events is_System_def split: sum.splits)

subsection \<open>Concrete runs\<close>

lemma build_gcc_fails:
  "build env_gcc_fails batched_model vec2 =
     (batched_model,
      Inl (Exception (compile_failed_msg (os_cmd env_gcc_fails batched_model))),
      [PathExists ''_l4c_generated'', MakeDirs ''_l4c_generated'',
       JitTraceSave TheModel (Tensor [1, 2] [0, 0] ''cpu'') ''_l4c_generated/l4casadi_f_forward.pt'',
       MakeFxJacrev (Tensor [1, 2] [0, 0] ''cpu''),
       TsCompileSave (Graph (FxGraph 1)) ''_l4c_generated/l4casadi_f_jacrev.pt'',
       MakeFxHessian (Tensor [1, 2] [0, 0] ''cpu''),
       TsCompileSave (Graph (FxGraph 2)) ''_l4c_generated/l4casadi_f_hess.pt'',
       ModelCall (Tensor [1, 2] [0, 0] ''cpu''),
       Render
         [(''model_path'', PyStr ''/home/user/_l4c_generated''),
          (''device'', PyStr ''cpu''), (''name'', PyStr ''l4casadi_f''),
          (''rows_in'', PyInt 2), (''cols_in'', PyInt 1),
          (''rows_out'', PyInt 2), (''cols_out'', PyInt 1),
          (''has_jac'', PyStr ''true''), (''has_hess'', PyStr ''true''),
          (''model_expects_batch_dim'', PyStr ''true'')]
         ''_l4c_generated/l4casadi_f.cpp'',
       System (os_cmd env_gcc_fails batched_model)])"
  by (simp add: build_def generate_def generate_cpp_function_template_def out_dims_def
        gen_params_def bool_str_def maybe_make_generation_dir_def compile_def
        world_simps io_simps export_simps numeral_2_eq_2)

lemma build_ok:
  "build env_ok batched_model vec2 =
     (batched_model\<lparr>built := True\<rparr>, Inr (),
      [PathExists ''_l4c_generated'', MakeDirs ''_l4c_generated'',
       JitTraceSave TheModel (Tensor [1, 2] [0, 0] ''cpu'') ''_l4c_generated/l4casadi_f_forward.pt'',
       MakeFxJacrev (Tensor [1, 2] [0, 0] ''cpu''),
       TsCompileSave (Graph (FxGraph 1)) ''_l4c_generated/l4casadi_f_jacrev.pt'',
       MakeFxHessian (Tensor [1, 2] [0, 0] ''cpu''),
       TsCompileSave (Graph (FxGraph 2)) ''_l4c_generated/l4casadi_f_hess.pt'',
       ModelCall (Tensor [1, 2] [0, 0] ''cpu''),
       Render
         [(''model_path'', PyStr ''/home/user/_l4c_generated''),
          (''device'', PyStr ''cpu''), (''name'', PyStr ''l4casadi_f''),
          (''rows_in'', PyInt 2), (''cols_in'', PyInt 1),
          (''rows_out'', PyInt 2), (''cols_out'', PyInt 1),
          (''has_jac'', PyStr ''true''), (''has_hess'', PyStr ''true''),
          (''model_expects_batch_dim'', PyStr ''true'')]
         ''_l4c_generated/l4casadi_f.cpp'',
       System (os_cmd env_ok batched_model)])"
  by (simp add: build_def generate_def generate_cpp_function_template_def out_dims_def
        gen_params_def bool_str_def maybe_make_generation_dir_def compile_def
        world_simps io_simps export_simps numeral_2_eq_2)

lemma os_cmd_batched:
  "os_cmd env_ok batched_model =
     ''gcc -fPIC -shared _l4c_generated/l4casadi_f.cpp -o _l4c_generated/libl4casadi_f.so''
     @ '' -I/site-packages/l4casadi/include -L/site-packages/l4casadi/lib''
     @ '' -Wl,-soname,libl4casadi_f.so -ll4casadi -lstdc++ -std=c++17 -D_GLIBCXX_USE_CXX11_ABI=1''"
  by (simp add: os_cmd_def dynamic_lib_file_ending_def world_simps)

lemma forward_ok:
  "forward env_ok batched_model vec2 =
     (batched_model\<lparr>built := True,
        cs_fun := Some (CsExternal ''l4casadi_f'' ''_l4c_generated/libl4casadi_f.so'')\<rparr>,
      Inr vec2,
      snd (snd (build env_ok batched_model vec2))
      @ [CsExternalLoad ''l4casadi_f'' ''_l4c_generated/libl4casadi_f.so'',
         CsCall (CsExternal ''l4casadi_f'' ''_l4c_generated/libl4casadi_f.so'') vec2])"
proof -
  have u: "\<not> (has_batch batched_model \<and> snd (cs_shape vec2) \<noteq> 1)" "\<not> naive batched_model"
    "\<not> built batched_model"
    by (simp_all add: world_simps)
  show ?thesis
    unfolding forward_def using u
    by (simp add: build_ok load_built_library_as_external_cs_fun_def dynamic_lib_file_ending_def
          io_simps Let_def)
       (simp add: world_simps)
qed

subsection \<open>Evaluation before a build\<close>

lemma maybe_make_generation_dir_error:
  "fst (maybe_make_generation_dir env self) \<noteq> Inl (RuntimeError m)"
  by (simp add: maybe_make_generation_dir_def io_simps)

lemma export_error:
  "fst (export_torch_traces env self rows cols) \<noteq> Inl (RuntimeError m)"
  by (auto simp add: export_simps io_simps split: option.splits if_splits)

lemma out_dims_error: "out_dims b xs \<noteq> Inl (RuntimeError m)"
  by (auto simp add: out_dims_def split: list.splits)

lemma template_error:
  "fst (generate_cpp_function_template env self rows cols has_jac has_hess) \<noteq> Inl (RuntimeError m)"
  using out_dims_error [of "has_batch self" _ m]
  by (auto simp add: generate_cpp_function_template_def io_simps Let_def
        split: option.splits if_splits sum.splits prod.splits)

lemma generate_error:
  "fst (generate env self inp) \<noteq> Inl (RuntimeError m)"
  unfolding generate_result
  using export_error [of env self "cs_rows inp" "cs_cols inp" m]
  by (auto simp add: template_error split: sum.splits prod.splits)

lemma build_naive_error:
  "fst (build_naive env self inp) \<noteq> Inl (RuntimeError m)"
  by (auto simp add: build_naive_def cs_shape_def io_simps Let_def split: option.splits if_splits)

lemma build_error:
  "fst (snd (build env self inp)) \<noteq> Inl (RuntimeError m)"
  unfolding build_result
  using maybe_make_generation_dir_error [of env self m] generate_error [of env self inp m]
    build_naive_error [of env self inp m]
  by (auto simp add: io_bind_result compile_result split: sum.splits if_splits)

lemma load_built:
  assumes "built self"
  shows "fst (snd (load_built_library_as_external_cs_fun env self)) \<noteq> Inl (RuntimeError m)
       \<and> (fst (snd (load_built_library_as_external_cs_fun env self)) = Inr ()
            \<longrightarrow> cs_fun (fst (load_built_library_as_external_cs_fun env self)) \<noteq> None)
       \<and> built (fst (load_built_library_as_external_cs_fun env self))"
  using assms by (simp add: load_built_library_as_external_cs_fun_def Let_def)

text \<open>\<open>forward\<close> once the batch check has passed.\<close>

lemma forward_checked:
  assumes "\<not> (has_batch self \<and> snd (cs_shape inp) \<noteq> 1)"
  shows "forward env self inp =
     (if naive self
      then (self, call_result (NaiveModelCall inp) InModel (naive_model_call env inp))
      else
        (case (if \<not> built self then build env self inp else (self, io_return ())) of
           (s1, Inl e, l1) \<Rightarrow> (s1, Inl e, l1)
         | (s1, Inr u, l1) \<Rightarrow>
        (case (if cs_fun s1 = None then load_built_library_as_external_cs_fun env s1
               else (s1, io_return ())) of
           (s2, Inl e, l2) \<Rightarrow> (s2, Inl e, l1 @ l2)
         | (s2, Inr u, l2) \<Rightarrow>
        (case cs_fun s2 of
           None \<Rightarrow> (s2, Inl (TypeError ''NoneType object is not callable''), l1 @ l2)
         | Some f \<Rightarrow>
             (s2, io_bind (Inr (), l1 @ l2)
                    (\<lambda>_. call_result (CsCall f inp) InCsCall (cs_call env f inp)))))))"
  unfolding forward_def by (subst if_not_P [OF assms]) (rule refl)

lemma forward_never_not_built:
  "fst (snd (forward env self inp)) \<noteq> Inl (RuntimeError not_built_msg)"
proof (cases "has_batch self \<and> snd (cs_shape inp) \<noteq> 1")
  case True
  then show ?thesis by (simp add: forward_def io_raise_def)
next
  case nb: False
  show ?thesis
  proof (cases "naive self")
    case True
    then show ?thesis
      unfolding forward_checked [OF nb]
      by (auto simp add: call_result_def split: option.splits)
  next
    case nn: False
    obtain s1 r1 l1 where b: "(if \<not> built self then build env self inp else (self, io_return ()))
                                = (s1, r1, l1)"
      by (cases "if \<not> built self then build env self inp else (self, io_return ())") auto
    have r1: "r1 \<noteq> Inl (RuntimeError not_built_msg)"
      using b build_error [of env self inp not_built_msg]
      by (auto simp add: io_return_def split: if_splits)
    have s1: "r1 = Inr () \<longrightarrow> built s1"
      using b build_object [of env self inp]
      by (auto simp add: io_return_def split: if_splits)
    show ?thesis
    proof (cases r1)
      case (Inl e)
      with nn b r1 show ?thesis
        unfolding forward_checked [OF nb] by simp
    next
      case (Inr u)
      with s1 have bs: "built s1" by simp
      obtain s2 r2 l2 where l: "(if cs_fun s1 = None
                                   then load_built_library_as_external_cs_fun env s1
                                   else (s1, io_return ())) = (s2, r2, l2)"
        by (cases "if cs_fun s1 = None then load_built_library_as_external_cs_fun env s1
                   else (s1, io_return ())") auto
      have r2: "r2 \<noteq> Inl (RuntimeError not_built_msg)"
        using l load_built [OF bs, of env not_built_msg]
        by (auto simp add: io_return_def split: if_splits)
      have c2: "r2 = Inr () \<longrightarrow> cs_fun s2 \<noteq> None"
        using l load_built [OF bs, of env not_built_msg]
        by (auto simp add: io_return_def split: if_splits)
      show ?thesis
      proof (cases r2)
        case e2: (Inl e)
        with nn b Inr l r2 show ?thesis
          unfolding forward_checked [OF nb] by simp
      next
        case u2: (Inr u')
        with c2 obtain f where f: "cs_fun s2 = Some f" by auto
        with nn b Inr l u2 show ?thesis
          unfolding forward_checked [OF nb]
          by (auto simp add: io_bind_def call_result_def split: option.splits)
      qed
    qed
  qed
qed

text \<open>\<open>forward\<close> on an object that is not built: the build, then the load when nothing is
  loaded, then the call.\<close>

lemma forward_unbuilt:
  assumes "\<not> naive self" and "\<not> built self"
    and "\<not> (has_batch self \<and> snd (cs_shape inp) \<noteq> 1)"
  shows "forward env self inp =
     (let lib = joinpath env (build_dir self) (''lib'' @ name self) @ dynamic_lib_file_ending env
      in case snd (build env self inp) of
           (Inl e, l1) \<Rightarrow> (self, Inl e, l1)
         | (Inr u, l1) \<Rightarrow>
             (case cs_fun self of
                None \<Rightarrow>
                  (if cs_external env (name self) lib
                   then (self\<lparr>built := True, cs_fun := Some (CsExternal (name self) lib)\<rparr>,
                         (case cs_call env (CsExternal (name self) lib) inp of
                            None \<Rightarrow> Inl (Raised InCsCall)
                          | Some out \<Rightarrow> Inr out),
                         l1 @ [CsExternalLoad (name self) lib,
                               CsCall (CsExternal (name self) lib) inp])
                   else (self\<lparr>built := True\<rparr>, Inl (Raised InCsExternal),
                         l1 @ [CsExternalLoad (name self) lib]))
              | Some f \<Rightarrow>
                  (self\<lparr>built := True\<rparr>,
                   (case cs_call env f inp of
                      None \<Rightarrow> Inl (Raised InCsCall)
                    | Some out \<Rightarrow> Inr out),
                   l1 @ [CsCall f inp])))"
proof -
  have nb: "\<not> (has_batch self \<and> snd (cs_shape inp) \<noteq> 1)" by (rule assms(3))
  obtain s1 r1 l1 where b: "build env self inp = (s1, r1, l1)"
    by (cases "build env self inp") auto
  have s1: "s1 = (case r1 of Inl e \<Rightarrow> self | Inr u \<Rightarrow> self\<lparr>built := True\<rparr>)"
    using b build_object [of env self inp] by simp
  show ?thesis
  proof (cases r1)
    case (Inl e)
    with assms(1,2) b s1 show ?thesis
      unfolding forward_checked [OF nb] by simp
  next
    case (Inr u)
    with s1 have s1': "s1 = self\<lparr>built := True\<rparr>" by simp
    show ?thesis
    proof (cases "cs_fun self")
      case None
      with assms(1,2) b Inr s1' show ?thesis
        unfolding forward_checked [OF nb]
        by (simp add: load_built_library_as_external_cs_fun_def Let_def io_bind_def
              call_result_def split: option.splits)
    next
      case (Some f)
      with assms(1,2) b Inr s1' show ?thesis
        unfolding forward_checked [OF nb]
        by (simp add: io_bind_def io_return_def call_result_def split: option.splits)
    qed
  qed
qed

text \<open>
  C3, as stated, fails: \<open>forward\<close> on a model that is not naive and not built does not fail.
  With every collaborator working it runs the build (gcc included), loads the library and
  returns the result of the external function; \<^verbatim>\<open>_built\<close> is set afterwards.
\<close>

theorem forward_on_unbuilt_model_builds:
  "\<not> naive batched_model \<and> \<not> built batched_model
   \<and> fst (snd (forward env_ok batched_model vec2)) = Inr vec2
   \<and> built (fst (forward env_ok batched_model vec2))
   \<and> System (os_cmd env_ok batched_model) \<in> set (snd (snd (forward env_ok batched_model vec2)))"
  by (simp add: forward_ok build_ok) (simp add: world_simps)

text \<open>
  C3, amended. \<open>forward\<close> never raises the \<^verbatim>\<open>RuntimeError\<close> of line 139. On a model that is
  not naive and not built, with an input that passes the batch check, it is the build
  followed by the load and the call: an exception of the build is the exception of
  \<open>forward\<close> and leaves the object as it was; when the build returned, \<^verbatim>\<open>_built\<close> is set,
  the library \<open>build_dir / ("lib" + name)\<close> with the platform's ending is loaded with
  \<^verbatim>\<open>cs.external\<close> under the name of the object unless a function is loaded already, and
  the loaded function is called on the input, its result being the result of \<open>forward\<close>.
  The error "not built yet" is what \<open>load_built_library_as_external_cs_fun\<close>, called on an
  object that is not built, raises, without any event.
\<close>

theorem forward_runs_build:
  "fst (snd (forward env self inp)) \<noteq> Inl (RuntimeError not_built_msg)
   \<and> (\<not> naive self \<and> \<not> built self \<and> \<not> (has_batch self \<and> snd (cs_shape inp) \<noteq> 1) \<longrightarrow>
        forward env self inp =
          (let lib = joinpath env (build_dir self) (''lib'' @ name self)
                     @ dynamic_lib_file_ending env
           in case snd (build env self inp) of
                (Inl e, l1) \<Rightarrow> (self, Inl e, l1)
              | (Inr u, l1) \<Rightarrow>
                  (case cs_fun self of
                     None \<Rightarrow>
                       (if cs_external env (name self) lib
                        then (self\<lparr>built := True,
                                cs_fun := Some (CsExternal (name self) lib)\<rparr>,
                              (case cs_call env (CsExternal (name self) lib) inp of
                                 None \<Rightarrow> Inl (Raised InCsCall)
                               | Some out \<Rightarrow> Inr out),
                              l1 @ [CsExternalLoad (name self) lib,
                                    CsCall (CsExternal (name self) lib) inp])
                        else (self\<lparr>built := True\<rparr>, Inl (Raised InCsExternal),
                              l1 @ [CsExternalLoad (name self) lib]))
                   | Some f \<Rightarrow>
                       (self\<lparr>built := True\<rparr>,
                        (case cs_call env f inp of
                           None \<Rightarrow> Inl (Raised InCsCall)
                         | Some out \<Rightarrow> Inr out),
                        l1 @ [CsCall f inp]))))
   \<and> (\<not> built self \<longrightarrow>
        load_built_library_as_external_cs_fun env self
          = (self, Inl (RuntimeError not_built_msg), []))"
proof (intro conjI impI)
  show "fst (snd (forward env self inp)) \<noteq> Inl (RuntimeError not_built_msg)"
    by (rule forward_never_not_built)
next
  assume "\<not> built self"
  then show "load_built_library_as_external_cs_fun env self
          = (self, Inl (RuntimeError not_built_msg), [])"
    by (simp add: load_built_library_as_external_cs_fun_def io_raise_def)
next
  assume "\<not> naive self \<and> \<not> built self \<and> \<not> (has_batch self \<and> snd (cs_shape inp) \<noteq> 1)"
  then show "forward env self inp =
          (let lib = joinpath env (build_dir self) (''lib'' @ name self)
                     @ dynamic_lib_file_ending env
           in case snd (build env self inp) of
                (Inl e, l1) \<Rightarrow> (self, Inl e, l1)
              | (Inr u, l1) \<Rightarrow>
                  (case cs_fun self of
                     None \<Rightarrow>
                       (if cs_external env (name self) lib
                        then (self\<lparr>built := True,
                                cs_fun := Some (CsExternal (name self) lib)\<rparr>,
                              (case cs_call env (CsExternal (name self) lib) inp of
                                 None \<Rightarrow> Inl (Raised InCsCall)
                               | Some out \<Rightarrow> Inr out),
                              l1 @ [CsExternalLoad (name self) lib,
                                    CsCall (CsExternal (name self) lib) inp])
                        else (self\<lparr>built := True\<rparr>, Inl (Raised InCsExternal),
                              l1 @ [CsExternalLoad (name self) lib]))
                   | Some f \<Rightarrow>
                       (self\<lparr>built := True\<rparr>,
                        (case cs_call env f inp of
                           None \<Rightarrow> Inl (Raised InCsCall)
                         | Some out \<Rightarrow> Inr out),
                        l1 @ [CsCall f inp])))"
    using forward_unbuilt [of self inp env] by blast
qed

theorem forward_runs_build_witness:
  "\<not> naive batched_model \<and> \<not> built batched_model
   \<and> \<not> (has_batch batched_model \<and> snd (cs_shape vec2) \<noteq> 1)
   \<and> fst (snd (forward env_ok batched_model vec2)) \<noteq> Inl (RuntimeError not_built_msg)
   \<and> forward env_ok batched_model vec2
       = (batched_model\<lparr>built := True,
            cs_fun := Some (CsExternal ''l4casadi_f'' ''_l4c_generated/libl4casadi_f.so'')\<rparr>,
          Inr vec2,
          snd (snd (build env_ok batched_model vec2))
          @ [CsExternalLoad ''l4casadi_f'' ''_l4c_generated/libl4casadi_f.so'',
             CsCall (CsExternal ''l4casadi_f'' ''_l4c_generated/libl4casadi_f.so'') vec2])
   \<and> forward env_gcc_fails batched_model vec2
       = (batched_model,
          Inl (Exception (compile_failed_msg (os_cmd env_gcc_fails batched_model))),
          snd (snd (build env_gcc_fails batched_model vec2)))
   \<and> load_built_library_as_external_cs_fun env_ok batched_model
       = (batched_model, Inl (RuntimeError not_built_msg), [])"
proof -
  have u: "\<not> naive batched_model" "\<not> built batched_model"
    "\<not> (has_batch batched_model \<and> snd (cs_shape vec2) \<noteq> 1)"
    by (simp_all add: world_simps)
  have c: "cs_fun batched_model = None" "name batched_model = ''l4casadi_f''"
    "build_dir batched_model = ''_l4c_generated''"
    by (simp_all add: world_simps)
  have e: "cs_external env_ok n p" "cs_call env_ok g vec2 = Some vec2"
    "joinpath env_ok a b = a @ ''/'' @ b" "dynamic_lib_file_ending env_ok = ''.so''" for n p g a b
    by (simp_all add: env_ok_def dynamic_lib_file_ending_def)
  note t1 = forward_runs_build [of env_ok batched_model vec2]
  note t2 = forward_runs_build [of env_gcc_fails batched_model vec2]
  from t1 u have a1: "fst (snd (forward env_ok batched_model vec2)) \<noteq> Inl (RuntimeError not_built_msg)"
    by blast
  from t1 u have a2: "load_built_library_as_external_cs_fun env_ok batched_model
       = (batched_model, Inl (RuntimeError not_built_msg), [])"
    by blast
  from t1 u have "forward env_ok batched_model vec2 =
          (let lib = joinpath env_ok (build_dir batched_model) (''lib'' @ name batched_model)
                     @ dynamic_lib_file_ending env_ok
           in case snd (build env_ok batched_model vec2) of
                (Inl e, l1) \<Rightarrow> (batched_model, Inl e, l1)
              | (Inr u, l1) \<Rightarrow>
                  (case cs_fun batched_model of
                     None \<Rightarrow>
                       (if cs_external env_ok (name batched_model) lib
                        then (batched_model\<lparr>built := True,
                                cs_fun := Some (CsExternal (name batched_model) lib)\<rparr>,
                              (case cs_call env_ok (CsExternal (name batched_model) lib) vec2 of
                                 None \<Rightarrow> Inl (Raised InCsCall)
                               | Some out \<Rightarrow> Inr out),
                              l1 @ [CsExternalLoad (name batched_model) lib,
                                    CsCall (CsExternal (name batched_model) lib) vec2])
                        else (batched_model\<lparr>built := True\<rparr>, Inl (Raised InCsExternal),
                              l1 @ [CsExternalLoad (name batched_model) lib]))
                   | Some f \<Rightarrow>
                       (batched_model\<lparr>built := True\<rparr>,
                        (case cs_call env_ok f vec2 of
                           None \<Rightarrow> Inl (Raised InCsCall)
                         | Some out \<Rightarrow> Inr out),
                        l1 @ [CsCall f vec2])))"
    by blast
  then have a3: "forward env_ok batched_model vec2
       = (batched_model\<lparr>built := True,
            cs_fun := Some (CsExternal ''l4casadi_f'' ''_l4c_generated/libl4casadi_f.so'')\<rparr>,
          Inr vec2,
          snd (snd (build env_ok batched_model vec2))
          @ [CsExternalLoad ''l4casadi_f'' ''_l4c_generated/libl4casadi_f.so'',
             CsCall (CsExternal ''l4casadi_f'' ''_l4c_generated/libl4casadi_f.so'') vec2])"
    by (simp add: build_ok c e Let_def)
  from t2 u have "forward env_gcc_fails batched_model vec2 =
          (let lib = joinpath env_gcc_fails (build_dir batched_model) (''lib'' @ name batched_model)
                     @ dynamic_lib_file_ending env_gcc_fails
           in case snd (build env_gcc_fails batched_model vec2) of
                (Inl e, l1) \<Rightarrow> (batched_model, Inl e, l1)
              | (Inr u, l1) \<Rightarrow>
                  (case cs_fun batched_model of
                     None \<Rightarrow>
                       (if cs_external env_gcc_fails (name batched_model) lib
                        then (batched_model\<lparr>built := True,
                                cs_fun := Some (CsExternal (name batched_model) lib)\<rparr>,
                              (case cs_call env_gcc_fails (CsExternal (name batched_model) lib) vec2 of
                                 None \<Rightarrow> Inl (Raised InCsCall)
                               | Some out \<Rightarrow> Inr out),
                              l1 @ [CsExternalLoad (name batched_model) lib,
                                    CsCall (CsExternal (name batched_model) lib) vec2])
                        else (batched_model\<lparr>built := True\<rparr>, Inl (Raised InCsExternal),
                              l1 @ [CsExternalLoad (name batched_model) lib]))
                   | Some f \<Rightarrow>
                       (batched_model\<lparr>built := True\<rparr>,
                        (case cs_call env_gcc_fails f vec2 of
                           None \<Rightarrow> Inl (Raised InCsCall)
                         | Some out \<Rightarrow> Inr out),
                        l1 @ [CsCall f vec2])))"
    by blast
  then have a4: "forward env_gcc_fails batched_model vec2
       = (batched_model,
          Inl (Exception (compile_failed_msg (os_cmd env_gcc_fails batched_model))),
          snd (snd (build env_gcc_fails batched_model vec2)))"
    by (simp add: build_gcc_fails Let_def)
  from u a1 a2 a3 a4 show ?thesis by blast
qed

subsection \<open>After a failed compilation\<close>

lemma build_compile_step:
  assumes "fst (maybe_make_generation_dir env self) = Inr ()"
    and "fst (if naive self then build_naive env self inp else generate env self inp) = Inr ()"
  shows "snd (build env self inp) =
           (fst (compile env self),
            snd (maybe_make_generation_dir env self)
            @ snd (if naive self then build_naive env self inp else generate env self inp)
            @ [System (os_cmd env self)])"
proof -
  have "fst (snd (build env self inp)) = fst (compile env self)"
    unfolding build_result using assms by (simp add: io_bind_result)
  moreover have "snd (snd (build env self inp)) =
            snd (maybe_make_generation_dir env self)
            @ snd (if naive self then build_naive env self inp else generate env self inp)
            @ [System (os_cmd env self)]"
    unfolding build_log using assms by (simp add: io_bind_log io_bind_result compile_events)
  ultimately show ?thesis by (simp add: prod_eq_iff)
qed

lemma build_sets_built:
  "built (fst (build env self inp)) = (built self \<or> fst (snd (build env self inp)) = Inr ())"
  by (auto simp add: build_object split: sum.splits)

lemma forward_unbuilt_built:
  assumes "\<not> naive self" and "\<not> built self"
    and "\<not> (has_batch self \<and> snd (cs_shape inp) \<noteq> 1)"
  shows "(\<exists>l. snd (snd (forward env self inp)) = snd (snd (build env self inp)) @ l)
       \<and> built (fst (forward env self inp)) = (fst (snd (build env self inp)) = Inr ())"
proof -
  obtain r l where b: "snd (build env self inp) = (r, l)"
    by (cases "snd (build env self inp)")
  show ?thesis
    unfolding forward_unbuilt [OF assms] b using assms(2)
    by (cases r) (auto simp add: Let_def split: option.splits)
qed

text \<open>
  C5, as stated, fails: the object has no failed state. After a build in which gcc exits with
  a non-zero status, \<^verbatim>\<open>_built\<close> is still \<open>False\<close>, and in a world where gcc works a second
  \<open>build\<close> on the same object returns and sets it; so does \<open>forward\<close>, which runs the
  build again by itself.
\<close>

theorem rebuild_after_compile_failure:
  "fst (snd (build env_gcc_fails batched_model vec2))
     = Inl (Exception (compile_failed_msg (os_cmd env_gcc_fails batched_model)))
   \<and> \<not> built (fst (build env_gcc_fails batched_model vec2))
   \<and> fst (snd (build env_ok (fst (build env_gcc_fails batched_model vec2)) vec2)) = Inr ()
   \<and> built (fst (build env_ok (fst (build env_gcc_fails batched_model vec2)) vec2))
   \<and> fst (snd (forward env_ok (fst (build env_gcc_fails batched_model vec2)) vec2)) = Inr vec2
   \<and> built (fst (forward env_ok (fst (build env_gcc_fails batched_model vec2)) vec2))"
  by (simp add: build_gcc_fails build_ok forward_ok) (simp add: world_simps)

text \<open>
  C5, amended. When \<^verbatim>\<open>os.system\<close> returns a non-zero status for the command line of
  the object, \<open>build\<close> raises and leaves the object as it was, so \<^verbatim>\<open>_built\<close> keeps the
  value it had (\<open>False\<close> for an object that was not built). Within the one call the compiler
  is invoked at most once; when the steps before the compilation returned it is invoked
  exactly once, after them, and the exception is the one of line 200, carrying the command
  line. There is no failed state: a later \<open>build\<close> on the object is the \<open>build\<close> on the
  object before the failure and sets \<^verbatim>\<open>_built\<close> when it returns, and a later \<open>forward\<close>
  on an object that is not naive and not built runs the build again, the object being built
  afterwards exactly when that build returned.
\<close>

theorem compile_failure_leaves_unbuilt:
  assumes "os_system env (os_cmd env self) \<noteq> 0"
  shows "(\<exists>e. fst (snd (build env self inp)) = Inl e)
       \<and> fst (build env self inp) = self
       \<and> built (fst (build env self inp)) = built self
       \<and> length (filter is_System (snd (snd (build env self inp)))) \<le> 1
       \<and> (System (os_cmd env self) \<in> set (snd (snd (build env self inp))) \<longrightarrow>
            fst (snd (build env self inp))
              = Inl (Exception (compile_failed_msg (os_cmd env self))))
       \<and> (fst (maybe_make_generation_dir env self) = Inr ()
            \<and> fst (if naive self then build_naive env self inp else generate env self inp) = Inr ()
          \<longrightarrow>
            snd (build env self inp) =
              (Inl (Exception (compile_failed_msg (os_cmd env self))),
               snd (maybe_make_generation_dir env self)
               @ snd (if naive self then build_naive env self inp else generate env self inp)
               @ [System (os_cmd env self)]))
       \<and> (\<forall>env'. build env' (fst (build env self inp)) inp = build env' self inp
              \<and> built (fst (build env' (fst (build env self inp)) inp))
                  = (built self \<or> fst (snd (build env' self inp)) = Inr ()))
       \<and> (\<not> naive self \<and> \<not> built self \<and> \<not> (has_batch self \<and> snd (cs_shape inp) \<noteq> 1) \<longrightarrow>
            (\<forall>env'.
               (\<exists>l. snd (snd (forward env' (fst (build env self inp)) inp))
                      = snd (snd (build env' self inp)) @ l)
               \<and> built (fst (forward env' (fst (build env self inp)) inp))
                   = (fst (snd (build env' self inp)) = Inr ())))"
proof -
  have r: "\<exists>e. fst (snd (build env self inp)) = Inl e"
    using assms unfolding build_result
    by (auto simp add: io_bind_result compile_result split: sum.splits)
  then have o: "fst (build env self inp) = self"
    by (auto simp add: build_object)
  have c: "length (filter is_System (snd (snd (build env self inp)))) \<le> 1"
    using build_system_events [of env self inp] by auto
  have s: "System (os_cmd env self) \<in> set (snd (snd (build env self inp))) \<longrightarrow>
            fst (snd (build env self inp))
              = Inl (Exception (compile_failed_msg (os_cmd env self)))"
  proof
    assume "System (os_cmd env self) \<in> set (snd (snd (build env self inp)))"
    then have "System (os_cmd env self) \<in> set (filter is_System (snd (snd (build env self inp))))"
      by (simp add: is_System_def)
    then show "fst (snd (build env self inp))
              = Inl (Exception (compile_failed_msg (os_cmd env self)))"
      using assms
        no_system_mem [OF maybe_make_generation_dir_no_system, of "os_cmd env self" env self]
        no_system_mem [OF generate_no_system, of "os_cmd env self" env self inp]
        no_system_mem [OF build_naive_no_system, of "os_cmd env self" env self inp]
      unfolding build_result build_log
      by (auto simp add: io_bind_log io_bind_result compile_result compile_events
            split: sum.splits if_splits)
  qed
  have p: "fst (maybe_make_generation_dir env self) = Inr ()
            \<and> fst (if naive self then build_naive env self inp else generate env self inp) = Inr ()
          \<longrightarrow>
            snd (build env self inp) =
              (Inl (Exception (compile_failed_msg (os_cmd env self))),
               snd (maybe_make_generation_dir env self)
               @ snd (if naive self then build_naive env self inp else generate env self inp)
               @ [System (os_cmd env self)])"
    using assms build_compile_step [of env self inp] by (simp add: compile_result)
  have l: "\<forall>env'. build env' (fst (build env self inp)) inp = build env' self inp
              \<and> built (fst (build env' (fst (build env self inp)) inp))
                  = (built self \<or> fst (snd (build env' self inp)) = Inr ())"
    unfolding o by (simp add: build_sets_built)
  have f: "\<not> naive self \<and> \<not> built self \<and> \<not> (has_batch self \<and> snd (cs_shape inp) \<noteq> 1) \<longrightarrow>
            (\<forall>env'.
               (\<exists>l. snd (snd (forward env' (fst (build env self inp)) inp))
                      = snd (snd (build env' self inp)) @ l)
               \<and> built (fst (forward env' (fst (build env self inp)) inp))
                   = (fst (snd (build env' self inp)) = Inr ()))"
    unfolding o using forward_unbuilt_built [of self inp] by blast
  from o have bb: "built (fst (build env self inp)) = built self" by simp
  from r o bb c s p l f show ?thesis by blast
qed

theorem compile_failure_leaves_unbuilt_witness:
  "os_system env_gcc_fails (os_cmd env_gcc_fails batched_model) \<noteq> 0
   \<and> \<not> naive batched_model \<and> \<not> built batched_model
   \<and> \<not> (has_batch batched_model \<and> snd (cs_shape vec2) \<noteq> 1)
   \<and> fst (maybe_make_generation_dir env_gcc_fails batched_model) = Inr ()
   \<and> fst (generate env_gcc_fails batched_model vec2) = Inr ()
   \<and> fst (build env_gcc_fails batched_model vec2) = batched_model
   \<and> \<not> built (fst (build env_gcc_fails batched_model vec2))
   \<and> filter is_System (snd (snd (build env_gcc_fails batched_model vec2)))
       = [System (os_cmd env_gcc_fails batched_model)]
   \<and> fst (snd (build env_gcc_fails batched_model vec2))
       = Inl (Exception (compile_failed_msg (os_cmd env_gcc_fails batched_model)))
   \<and> fst (snd (build env_ok batched_model vec2)) = Inr ()
   \<and> built (fst (build env_ok (fst (build env_gcc_fails batched_model vec2)) vec2))
   \<and> built (fst (forward env_ok (fst (build env_gcc_fails batched_model vec2)) vec2))
   \<and> \<not> built (fst (forward env_gcc_fails (fst (build env_gcc_fails batched_model vec2)) vec2))"
proof -
  have h: "os_system env_gcc_fails (os_cmd env_gcc_fails batched_model) \<noteq> 0"
    by (simp add: env_gcc_fails_def env_ok_def)
  have u: "\<not> naive batched_model" "\<not> built batched_model"
    "\<not> (has_batch batched_model \<and> snd (cs_shape vec2) \<noteq> 1)"
    by (simp_all add: world_simps)
  have m: "fst (maybe_make_generation_dir env_gcc_fails batched_model) = Inr ()"
    by (simp add: maybe_make_generation_dir_def io_simps world_simps)
  have g: "fst (generate env_gcc_fails batched_model vec2) = Inr ()"
    by (simp add: generate_def generate_cpp_function_template_def out_dims_def
          world_simps io_simps export_simps numeral_2_eq_2)
  have ok: "fst (snd (build env_ok batched_model vec2)) = Inr ()"
    by (simp add: build_ok)
  have fl: "fst (snd (build env_gcc_fails batched_model vec2))
       = Inl (Exception (compile_failed_msg (os_cmd env_gcc_fails batched_model)))"
    by (simp add: build_gcc_fails)
  note t = compile_failure_leaves_unbuilt [OF h, of vec2]
  from t have a1: "fst (build env_gcc_fails batched_model vec2) = batched_model"
    by blast
  from t u have a2: "\<not> built (fst (build env_gcc_fails batched_model vec2))"
    by simp
  from t u m g have "snd (build env_gcc_fails batched_model vec2) =
              (Inl (Exception (compile_failed_msg (os_cmd env_gcc_fails batched_model))),
               snd (maybe_make_generation_dir env_gcc_fails batched_model)
               @ snd (generate env_gcc_fails batched_model vec2)
               @ [System (os_cmd env_gcc_fails batched_model)])"
    by simp
  then have a3: "filter is_System (snd (snd (build env_gcc_fails batched_model vec2)))
       = [System (os_cmd env_gcc_fails batched_model)]"
    by (simp add: maybe_make_generation_dir_no_system generate_no_system is_System_def)
  from t u ok have a4: "built (fst (build env_ok (fst (build env_gcc_fails batched_model vec2)) vec2))"
    by blast
  from t u ok have a5: "built (fst (forward env_ok (fst (build env_gcc_fails batched_model vec2)) vec2))"
    by blast
  from t u fl have a6:
    "\<not> built (fst (forward env_gcc_fails (fst (build env_gcc_fails batched_model vec2)) vec2))"
    by (metis Inl_Inr_False)
  from h u m g a1 a2 a3 fl ok a4 a5 a6 show ?thesis by blast
qed

subsection \<open>Naive models\<close>

lemma os_cmd_naive:
  "os_cmd env_ok naive_model =
     ''gcc -fPIC -shared _l4c_generated/l4casadi_f.cpp -o _l4c_generated/libl4casadi_f.so''
     @ '' -I/site-packages/l4casadi/include -L/site-packages/l4casadi/lib''
     @ '' -Wl,-soname,libl4casadi_f.so -lstdc++ -std=c++17 -D_GLIBCXX_USE_CXX11_ABI=1''"
  by (simp add: os_cmd_def dynamic_lib_file_ending_def world_simps)

lemma build_naive_ok:
  "build env_ok naive_model vec2 =
     (naive_model\<lparr>built := True\<rparr>, Inr (),
      [PathExists ''_l4c_generated'', MakeDirs ''_l4c_generated'',
       NaiveModelCall (CsExpr ''inp'' 2 1),
       CsGenerate ''l4casadi_f'' (CsExpr ''inp'' 2 1) (CsExpr ''inp'' 2 1) ''l4casadi_f.cpp'',
       Move ''l4casadi_f.cpp'' ''_l4c_generated/l4casadi_f.cpp'',
       System (os_cmd env_ok naive_model)])"
  by (simp add: build_def build_naive_def maybe_make_generation_dir_def compile_def
        world_simps io_simps Let_def)

lemma build_naive_events:
  assumes "fst (build_naive env self inp) = Inr ()"
  shows "\<exists>out. naive_model_call env (CsExpr ''inp'' (cs_rows inp) (cs_cols inp)) = Some out
           \<and> snd (build_naive env self inp) =
               [NaiveModelCall (CsExpr ''inp'' (cs_rows inp) (cs_cols inp)),
                CsGenerate (name self) (CsExpr ''inp'' (cs_rows inp) (cs_cols inp)) out
                  (name self @ ''.cpp''),
                Move (name self @ ''.cpp'')
                  (joinpath env (build_dir self) (name self @ ''.cpp''))]"
  using assms
  by (auto simp add: build_naive_def cs_shape_def io_simps Let_def split: option.splits if_splits)

lemma naive_forward:
  assumes "naive self"
  shows "forward env self inp =
           (if has_batch self \<and> snd (cs_shape inp) \<noteq> 1
            then (self, Inl (ValueError batch_msg), [])
            else (self,
                  (case naive_model_call env inp of
                     None \<Rightarrow> Inl (Raised InModel)
                   | Some out \<Rightarrow> Inr out),
                  [NaiveModelCall inp]))"
  using assms
  by (auto simp add: forward_def io_raise_def call_result_def split: option.splits)

lemma naive_build_run:
  assumes "naive self"
    and "path_exists env (build_dir self) \<or> makedirs env (build_dir self)"
    and "naive_model_call env (CsExpr ''inp'' (fst (cs_shape inp)) (snd (cs_shape inp))) = Some out"
    and "cs_generate env (name self) (CsExpr ''inp'' (fst (cs_shape inp)) (snd (cs_shape inp))) out
           (name self @ ''.cpp'')"
    and "shutil_move env (name self @ ''.cpp'')
           (joinpath env (build_dir self) (name self @ ''.cpp''))"
  shows "build env self inp =
           ((if os_system env (os_cmd env self) = 0 then self\<lparr>built := True\<rparr> else self),
            (if os_system env (os_cmd env self) = 0 then Inr ()
             else Inl (Exception (compile_failed_msg (os_cmd env self)))),
            PathExists (build_dir self)
            # (if path_exists env (build_dir self) then [] else [MakeDirs (build_dir self)])
            @ [NaiveModelCall (CsExpr ''inp'' (fst (cs_shape inp)) (snd (cs_shape inp))),
               CsGenerate (name self) (CsExpr ''inp'' (fst (cs_shape inp)) (snd (cs_shape inp)))
                 out (name self @ ''.cpp''),
               Move (name self @ ''.cpp'')
                 (joinpath env (build_dir self) (name self @ ''.cpp'')),
               System (os_cmd env self)])"
  using assms
  by (auto simp add: build_def build_naive_def maybe_make_generation_dir_def compile_def
        cs_shape_def io_simps Let_def)

lemma naive_os_cmd:
  assumes "naive self"
  shows "os_cmd env self =
           ''gcc -fPIC -shared ''
           @ joinpath env (build_dir self) (name self) @ ''.cpp''
           @ '' -o '' @ joinpath env (build_dir self) (''lib'' @ name self)
           @ dynamic_lib_file_ending env
           @ '' -I'' @ joinpath env (pkg_dir env) ''include''
           @ '' -L'' @ joinpath env (pkg_dir env) ''lib''
           @ '' -Wl,-'' @ (if is_darwin env then ''install_name'' else ''soname'')
           @ '',lib'' @ name self @ dynamic_lib_file_ending env
           @ '' -lstdc++ -std=c++17''
           @ '' -D_GLIBCXX_USE_CXX11_ABI='' @ (if glibcxx_use_cxx11_abi env then ''1'' else ''0'')"
  using assms by (simp add: os_cmd_def Let_def)

text \<open>
  C4, as stated, fails: \<open>build\<close> calls \<open>compile\<close> for a naive model too (line 122 is
  outside the branch). With every collaborator working, the build of a naive model returns
  after one \<^verbatim>\<open>os.system\<close> call, a gcc command line that writes the shared library
  (without \<^verbatim>\<open>-ll4casadi\<close>).
\<close>

theorem naive_build_invokes_compiler:
  "naive naive_model
   \<and> fst (snd (build env_ok naive_model vec2)) = Inr ()
   \<and> filter is_System (snd (snd (build env_ok naive_model vec2)))
       = [System (''gcc -fPIC -shared _l4c_generated/l4casadi_f.cpp''
                  @ '' -o _l4c_generated/libl4casadi_f.so''
                  @ '' -I/site-packages/l4casadi/include -L/site-packages/l4casadi/lib''
                  @ '' -Wl,-soname,libl4casadi_f.so -lstdc++ -std=c++17''
                  @ '' -D_GLIBCXX_USE_CXX11_ABI=1'')]"
  by (simp add: build_naive_ok os_cmd_naive is_System_def) (simp add: world_simps)

text \<open>
  C4, amended. For a naive model, \<open>forward\<close> makes the batch check (a \<^verbatim>\<open>ValueError\<close>
  when the object expects a batch dimension and the input is not a vector) and otherwise
  calls the model on the symbolic input and does nothing else: the result or exception of
  the model is its own, it touches no file, invokes no toolchain and leaves the object as it
  is. A \<open>build\<close> of a naive model does compile: when the build directory exists or can be
  made, the model returns on a fresh symbol of the input's shape, the source of the symbolic
  function is generated and moved into the build directory, \<open>build\<close> runs the gcc command
  line once with \<^verbatim>\<open>os.system\<close>, returns and sets \<^verbatim>\<open>_built\<close> exactly when that returned
  0, and raises the exception of line 200 otherwise. A build that returned has made exactly
  these calls. The command line of a naive model has no \<^verbatim>\<open>-ll4casadi\<close>.
\<close>

theorem naive_model_toolchain:
  assumes "naive self"
  shows "forward env self inp =
           (if has_batch self \<and> snd (cs_shape inp) \<noteq> 1
            then (self, Inl (ValueError batch_msg), [])
            else (self,
                  (case naive_model_call env inp of
                     None \<Rightarrow> Inl (Raised InModel)
                   | Some out \<Rightarrow> Inr out),
                  [NaiveModelCall inp]))
       \<and> filter is_file_io (snd (snd (forward env self inp))) = []
       \<and> filter is_System (snd (snd (forward env self inp))) = []
       \<and> ((path_exists env (build_dir self) \<or> makedirs env (build_dir self))
            \<and> naive_model_call env (CsExpr ''inp'' (fst (cs_shape inp)) (snd (cs_shape inp)))
                = Some out
            \<and> cs_generate env (name self)
                (CsExpr ''inp'' (fst (cs_shape inp)) (snd (cs_shape inp))) out
                (name self @ ''.cpp'')
            \<and> shutil_move env (name self @ ''.cpp'')
                (joinpath env (build_dir self) (name self @ ''.cpp''))
          \<longrightarrow>
            build env self inp =
              ((if os_system env (os_cmd env self) = 0 then self\<lparr>built := True\<rparr> else self),
               (if os_system env (os_cmd env self) = 0 then Inr ()
                else Inl (Exception (compile_failed_msg (os_cmd env self)))),
               PathExists (build_dir self)
               # (if path_exists env (build_dir self) then [] else [MakeDirs (build_dir self)])
               @ [NaiveModelCall (CsExpr ''inp'' (fst (cs_shape inp)) (snd (cs_shape inp))),
                  CsGenerate (name self)
                    (CsExpr ''inp'' (fst (cs_shape inp)) (snd (cs_shape inp)))
                    out (name self @ ''.cpp''),
                  Move (name self @ ''.cpp'')
                    (joinpath env (build_dir self) (name self @ ''.cpp'')),
                  System (os_cmd env self)]))
       \<and> (fst (snd (build env self inp)) = Inr () \<longrightarrow>
            os_system env (os_cmd env self) = 0
            \<and> (\<exists>pre out.
                  snd (snd (build env self inp)) =
                    pre @ [NaiveModelCall (CsExpr ''inp'' (cs_rows inp) (cs_cols inp)),
                           CsGenerate (name self) (CsExpr ''inp'' (cs_rows inp) (cs_cols inp)) out
                             (name self @ ''.cpp''),
                           Move (name self @ ''.cpp'')
                             (joinpath env (build_dir self) (name self @ ''.cpp'')),
                           System (os_cmd env self)]
                  \<and> set pre \<subseteq> {PathExists (build_dir self), MakeDirs (build_dir self)}))
       \<and> os_cmd env self =
           ''gcc -fPIC -shared ''
           @ joinpath env (build_dir self) (name self) @ ''.cpp''
           @ '' -o '' @ joinpath env (build_dir self) (''lib'' @ name self)
           @ dynamic_lib_file_ending env
           @ '' -I'' @ joinpath env (pkg_dir env) ''include''
           @ '' -L'' @ joinpath env (pkg_dir env) ''lib''
           @ '' -Wl,-'' @ (if is_darwin env then ''install_name'' else ''soname'')
           @ '',lib'' @ name self @ dynamic_lib_file_ending env
           @ '' -lstdc++ -std=c++17''
           @ '' -D_GLIBCXX_USE_CXX11_ABI='' @ (if glibcxx_use_cxx11_abi env then ''1'' else ''0'')"
proof (intro conjI impI)
  show "forward env self inp =
           (if has_batch self \<and> snd (cs_shape inp) \<noteq> 1
            then (self, Inl (ValueError batch_msg), [])
            else (self,
                  (case naive_model_call env inp of
                     None \<Rightarrow> Inl (Raised InModel)
                   | Some out \<Rightarrow> Inr out),
                  [NaiveModelCall inp]))"
    by (rule naive_forward [OF assms])
  show "filter is_file_io (snd (snd (forward env self inp))) = []"
    unfolding naive_forward [OF assms] by (simp add: is_file_io_def)
  show "filter is_System (snd (snd (forward env self inp))) = []"
    unfolding naive_forward [OF assms] by (simp add: is_System_def)
  show "os_cmd env self =
           ''gcc -fPIC -shared ''
           @ joinpath env (build_dir self) (name self) @ ''.cpp''
           @ '' -o '' @ joinpath env (build_dir self) (''lib'' @ name self)
           @ dynamic_lib_file_ending env
           @ '' -I'' @ joinpath env (pkg_dir env) ''include''
           @ '' -L'' @ joinpath env (pkg_dir env) ''lib''
           @ '' -Wl,-'' @ (if is_darwin env then ''install_name'' else ''soname'')
           @ '',lib'' @ name self @ dynamic_lib_file_ending env
           @ '' -lstdc++ -std=c++17''
           @ '' -D_GLIBCXX_USE_CXX11_ABI='' @ (if glibcxx_use_cxx11_abi env then ''1'' else ''0'')"
    by (rule naive_os_cmd [OF assms])
next
  assume "(path_exists env (build_dir self) \<or> makedirs env (build_dir self))
            \<and> naive_model_call env (CsExpr ''inp'' (fst (cs_shape inp)) (snd (cs_shape inp)))
                = Some out
            \<and> cs_generate env (name self)
                (CsExpr ''inp'' (fst (cs_shape inp)) (snd (cs_shape inp))) out
                (name self @ ''.cpp'')
            \<and> shutil_move env (name self @ ''.cpp'')
                (joinpath env (build_dir self) (name self @ ''.cpp''))"
  then show "build env self inp =
              ((if os_system env (os_cmd env self) = 0 then self\<lparr>built := True\<rparr> else self),
               (if os_system env (os_cmd env self) = 0 then Inr ()
                else Inl (Exception (compile_failed_msg (os_cmd env self)))),
               PathExists (build_dir self)
               # (if path_exists env (build_dir self) then [] else [MakeDirs (build_dir self)])
               @ [NaiveModelCall (CsExpr ''inp'' (fst (cs_shape inp)) (snd (cs_shape inp))),
                  CsGenerate (name self)
                    (CsExpr ''inp'' (fst (cs_shape inp)) (snd (cs_shape inp)))
                    out (name self @ ''.cpp''),
                  Move (name self @ ''.cpp'')
                    (joinpath env (build_dir self) (name self @ ''.cpp'')),
                  System (os_cmd env self)])"
    using naive_build_run [OF assms, of env inp out] by blast
next
  assume r: "fst (snd (build env self inp)) = Inr ()"
  from r assms have m: "fst (maybe_make_generation_dir env self) = Inr ()"
    and n: "fst (build_naive env self inp) = Inr ()"
    and c: "fst (compile env self) = Inr ()"
    unfolding build_result by (auto simp add: io_bind_result split: sum.splits)
  from c show "os_system env (os_cmd env self) = 0"
    by (simp add: compile_result split: if_splits)
  from build_naive_events [OF n] obtain out where
    e: "snd (build_naive env self inp) =
               [NaiveModelCall (CsExpr ''inp'' (cs_rows inp) (cs_cols inp)),
                CsGenerate (name self) (CsExpr ''inp'' (cs_rows inp) (cs_cols inp)) out
                  (name self @ ''.cpp''),
                Move (name self @ ''.cpp'')
                  (joinpath env (build_dir self) (name self @ ''.cpp''))]"
    by blast
  have "snd (snd (build env self inp)) =
          snd (maybe_make_generation_dir env self)
          @ [NaiveModelCall (CsExpr ''inp'' (cs_rows inp) (cs_cols inp)),
             CsGenerate (name self) (CsExpr ''inp'' (cs_rows inp) (cs_cols inp)) out
               (name self @ ''.cpp''),
             Move (name self @ ''.cpp'') (joinpath env (build_dir self) (name self @ ''.cpp'')),
             System (os_cmd env self)]"
    unfolding build_log using assms m n e
    by (simp add: io_bind_log io_bind_result compile_events)
  with maybe_make_generation_dir_events [of env self]
  show "\<exists>pre out.
          snd (snd (build env self inp)) =
            pre @ [NaiveModelCall (CsExpr ''inp'' (cs_rows inp) (cs_cols inp)),
                   CsGenerate (name self) (CsExpr ''inp'' (cs_rows inp) (cs_cols inp)) out
                     (name self @ ''.cpp''),
                   Move (name self @ ''.cpp'')
                     (joinpath env (build_dir self) (name self @ ''.cpp'')),
                   System (os_cmd env self)]
          \<and> set pre \<subseteq> {PathExists (build_dir self), MakeDirs (build_dir self)}"
    by blast
qed

theorem naive_model_toolchain_witness:
  "naive naive_model \<and> naive naive_batched_model
   \<and> forward env_ok naive_model vec2 = (naive_model, Inr vec2, [NaiveModelCall vec2])
   \<and> forward env_ok naive_batched_model mat23
       = (naive_batched_model, Inl (ValueError batch_msg), [])
   \<and> forward env_ok naive_batched_model vec2
       = (naive_batched_model, Inr vec2, [NaiveModelCall vec2])
   \<and> filter is_file_io (snd (snd (forward env_ok naive_model vec2))) = []
   \<and> filter is_System (snd (snd (forward env_ok naive_model vec2))) = []
   \<and> (path_exists env_ok (build_dir naive_model) \<or> makedirs env_ok (build_dir naive_model))
   \<and> naive_model_call env_ok (CsExpr ''inp'' (fst (cs_shape vec2)) (snd (cs_shape vec2)))
       = Some (CsExpr ''inp'' 2 1)
   \<and> cs_generate env_ok (name naive_model)
       (CsExpr ''inp'' (fst (cs_shape vec2)) (snd (cs_shape vec2))) (CsExpr ''inp'' 2 1)
       (name naive_model @ ''.cpp'')
   \<and> shutil_move env_ok (name naive_model @ ''.cpp'')
       (joinpath env_ok (build_dir naive_model) (name naive_model @ ''.cpp''))
   \<and> build env_ok naive_model vec2 =
       (naive_model\<lparr>built := True\<rparr>, Inr (),
        [PathExists ''_l4c_generated'', MakeDirs ''_l4c_generated'',
         NaiveModelCall (CsExpr ''inp'' 2 1),
         CsGenerate ''l4casadi_f'' (CsExpr ''inp'' 2 1) (CsExpr ''inp'' 2 1) ''l4casadi_f.cpp'',
         Move ''l4casadi_f.cpp'' ''_l4c_generated/l4casadi_f.cpp'',
         System (os_cmd env_ok naive_model)])
   \<and> build env_gcc_fails naive_model vec2 =
       (naive_model, Inl (Exception (compile_failed_msg (os_cmd env_gcc_fails naive_model))),
        [PathExists ''_l4c_generated'', MakeDirs ''_l4c_generated'',
         NaiveModelCall (CsExpr ''inp'' 2 1),
         CsGenerate ''l4casadi_f'' (CsExpr ''inp'' 2 1) (CsExpr ''inp'' 2 1) ''l4casadi_f.cpp'',
         Move ''l4casadi_f.cpp'' ''_l4c_generated/l4casadi_f.cpp'',
         System (os_cmd env_gcc_fails naive_model)])
   \<and> os_cmd env_ok naive_model =
       ''gcc -fPIC -shared _l4c_generated/l4casadi_f.cpp -o _l4c_generated/libl4casadi_f.so''
       @ '' -I/site-packages/l4casadi/include -L/site-packages/l4casadi/lib''
       @ '' -Wl,-soname,libl4casadi_f.so -lstdc++ -std=c++17 -D_GLIBCXX_USE_CXX11_ABI=1''"
proof -
  note w = world_simps
  have n: "naive naive_model" "naive naive_batched_model" by (simp_all add: w)
  note t = naive_model_toolchain [OF n(1), of env_ok vec2 "CsExpr ''inp'' 2 1"]
  note tg = naive_model_toolchain [OF n(1), of env_gcc_fails vec2 "CsExpr ''inp'' 2 1"]
  note tb = naive_model_toolchain [OF n(2), of env_ok mat23 "CsExpr ''inp'' 2 3"]
  note tv = naive_model_toolchain [OF n(2), of env_ok vec2 "CsExpr ''inp'' 2 1"]
  have h: "path_exists env_ok (build_dir naive_model) \<or> makedirs env_ok (build_dir naive_model)"
    "naive_model_call env_ok (CsExpr ''inp'' (fst (cs_shape vec2)) (snd (cs_shape vec2)))
       = Some (CsExpr ''inp'' 2 1)"
    "cs_generate env_ok (name naive_model)
       (CsExpr ''inp'' (fst (cs_shape vec2)) (snd (cs_shape vec2))) (CsExpr ''inp'' 2 1)
       (name naive_model @ ''.cpp'')"
    "shutil_move env_ok (name naive_model @ ''.cpp'')
       (joinpath env_ok (build_dir naive_model) (name naive_model @ ''.cpp''))"
    by (simp_all add: w)
  have f1: "forward env_ok naive_model vec2 = (naive_model, Inr vec2, [NaiveModelCall vec2])"
    using t by (simp add: w)
  have f2: "forward env_ok naive_batched_model mat23
       = (naive_batched_model, Inl (ValueError batch_msg), [])"
    using tb by (simp add: w)
  have f3: "forward env_ok naive_batched_model vec2
       = (naive_batched_model, Inr vec2, [NaiveModelCall vec2])"
    using tv by (simp add: w)
  have f4: "filter is_file_io (snd (snd (forward env_ok naive_model vec2))) = []"
    "filter is_System (snd (snd (forward env_ok naive_model vec2))) = []"
    using t by blast+
  have b1: "build env_ok naive_model vec2 =
       (naive_model\<lparr>built := True\<rparr>, Inr (),
        [PathExists ''_l4c_generated'', MakeDirs ''_l4c_generated'',
         NaiveModelCall (CsExpr ''inp'' 2 1),
         CsGenerate ''l4casadi_f'' (CsExpr ''inp'' 2 1) (CsExpr ''inp'' 2 1) ''l4casadi_f.cpp'',
         Move ''l4casadi_f.cpp'' ''_l4c_generated/l4casadi_f.cpp'',
         System (os_cmd env_ok naive_model)])"
    using t [THEN conjunct2, THEN conjunct2, THEN conjunct2, THEN conjunct1] h
    by (simp add: w)
  have b2: "build env_gcc_fails naive_model vec2 =
       (naive_model, Inl (Exception (compile_failed_msg (os_cmd env_gcc_fails naive_model))),
        [PathExists ''_l4c_generated'', MakeDirs ''_l4c_generated'',
         NaiveModelCall (CsExpr ''inp'' 2 1),
         CsGenerate ''l4casadi_f'' (CsExpr ''inp'' 2 1) (CsExpr ''inp'' 2 1) ''l4casadi_f.cpp'',
         Move ''l4casadi_f.cpp'' ''_l4c_generated/l4casadi_f.cpp'',
         System (os_cmd env_gcc_fails naive_model)])"
    using tg [THEN conjunct2, THEN conjunct2, THEN conjunct2, THEN conjunct1]
    by (simp add: w)
  have c: "os_cmd env_ok naive_model =
       ''gcc -fPIC -shared _l4c_generated/l4casadi_f.cpp -o _l4c_generated/libl4casadi_f.so''
       @ '' -I/site-packages/l4casadi/include -L/site-packages/l4casadi/lib''
       @ '' -Wl,-soname,libl4casadi_f.so -lstdc++ -std=c++17 -D_GLIBCXX_USE_CXX11_ABI=1''"
    using t [THEN conjunct2, THEN conjunct2, THEN conjunct2, THEN conjunct2, THEN conjunct2]
    by (simp add: w dynamic_lib_file_ending_def)
  from n h f1 f2 f3 f4 b1 b2 c show ?thesis by blast
qed

end
